theory Spec2Isabelle
  imports Complex_Main "HOL-Library.AList" "HOL-Library.Multiset"
begin

section \<open>Hierarchical text splitter (textSplitterForRag)\<close>

text \<open>
  A JavaScript string is modelled as a \<^typ>\<open>string\<close>: one \<^typ>\<open>char\<close> per
  code unit (the code units above 255 are not represented; the splitter treats every code
  unit other than line feed, \<open>#\<close> and space alike), \<open>length\<close> for \<open>.length\<close>,
  \<open>@\<close> for \<open>+=\<close>, and \<open>[]\<close> for the empty (falsy) string. \<open>maxLength\<close> is an
  \<^typ>\<open>int\<close>: the source compares it with lengths only, and nothing stops a caller
  from passing zero or a negative number.
\<close>

definition headers :: "string list" where
  "headers = [''\<newline># '', ''\<newline>## '', ''\<newline>### '', ''\<newline>#### '']"

text \<open>
  \<open>content.split(new RegExp(`(?=${header})`))\<close>. The pattern is a lookahead, so a
  match is empty and consumes nothing. ECMAScript's split walks a position \<open>q\<close> through
  the string, with \<open>p\<close> the start of the current piece: a match at \<open>q\<close> ends the
  piece \<open>S[p..q)\<close> unless the piece is empty (\<open>e = p\<close>), in which case \<open>q\<close> advances;
  the rest \<open>S[p..size)\<close> is the last piece. In \<open>splitLoop\<close>, \<open>cur\<close> is the piece
  \<open>S[p..q)\<close> read so far and the list argument is \<open>S[q..size)\<close>. On the empty string
  split returns \<open>[""]\<close> unless the pattern matches the empty string.
\<close>

fun splitLoop :: "string \<Rightarrow> string \<Rightarrow> string \<Rightarrow> string list" where
  "splitLoop header cur [] = [cur]"
| "splitLoop header cur (c # rest) =
     (if take (length header) (c # rest) = header \<and> cur \<noteq> []
      then cur # splitLoop header [c] rest
      else splitLoop header (cur @ [c]) rest)"

definition splitLookahead :: "string \<Rightarrow> string \<Rightarrow> string list" where
  "splitLookahead header content =
     (if content = [] then (if header = [] then [] else [[]])
      else splitLoop header [] content)"

text \<open>
  The \<open>for\<close> loop of \<open>splitByHeader\<close> over \<open>parts\<close>, with its two mutable
  variables \<open>result\<close> and \<open>accumulated\<close> passed along; \<open>recurse\<close> stands for the
  recursive call \<open>splitByHeader(part, headerLevel + 1)\<close>. The first equation is the code
  after the loop.
\<close>

fun accumulateParts ::
  "(string \<Rightarrow> string list) \<Rightarrow> int \<Rightarrow> string list \<Rightarrow> string list \<Rightarrow> string \<Rightarrow> string list"
where
  "accumulateParts recurse maxLength [] result accumulated =
     (if accumulated \<noteq> [] then result @ [accumulated] else result)"
| "accumulateParts recurse maxLength (part # parts) result accumulated =
     (if int (length part) > maxLength then
        accumulateParts recurse maxLength parts
          ((if accumulated \<noteq> [] then result @ [accumulated] else result) @ recurse part) []
      else if accumulated \<noteq> [] \<and> int (length accumulated) + int (length part) > maxLength then
        accumulateParts recurse maxLength parts (result @ [accumulated]) part
      else
        accumulateParts recurse maxLength parts result (accumulated @ part))"

function splitByHeader :: "int \<Rightarrow> string \<Rightarrow> nat \<Rightarrow> string list" where
  "splitByHeader maxLength content headerLevel =
     (if int (length content) \<le> maxLength then [content]
      else if headerLevel \<ge> length headers then [content]
      else if length (splitLookahead (headers ! headerLevel) content) = 1
        then splitByHeader maxLength content (headerLevel + 1)
      else accumulateParts (\<lambda>part. splitByHeader maxLength part (headerLevel + 1)) maxLength
             (splitLookahead (headers ! headerLevel) content) [] [])"
  by pat_completeness auto
termination
  by (relation "measure (\<lambda>(maxLength, content, headerLevel). length headers - headerLevel)") auto

declare splitByHeader.simps [simp del]

definition textSplitterForRag :: "string \<Rightarrow> int \<Rightarrow> string list" where
  "textSplitterForRag text maxLength = splitByHeader maxLength text 0"

text \<open>
  The nesting depth of the recursion of \<open>splitByHeader\<close>: 0 for an invocation that
  returns without calling itself, and otherwise one more than the deepest invocation it
  makes (the single call of the no-split path, or the calls of the loop, one for each
  part longer than \<open>maxLength\<close>).
\<close>

function splitByHeaderDepth :: "int \<Rightarrow> string \<Rightarrow> nat \<Rightarrow> nat" where
  "splitByHeaderDepth maxLength content headerLevel =
     (if int (length content) \<le> maxLength then 0
      else if headerLevel \<ge> length headers then 0
      else if length (splitLookahead (headers ! headerLevel) content) = 1
        then 1 + splitByHeaderDepth maxLength content (headerLevel + 1)
      else fold max
             (map (\<lambda>part. 1 + splitByHeaderDepth maxLength part (headerLevel + 1))
                (filter (\<lambda>part. int (length part) > maxLength)
                   (splitLookahead (headers ! headerLevel) content)))
             0)"
  by pat_completeness auto
termination
  by (relation "measure (\<lambda>(maxLength, content, headerLevel). length headers - headerLevel)") auto

declare splitByHeaderDepth.simps [simp del]


section \<open>Retrieval: aggregation of child hits and ordering of parents\<close>

text \<open>
  One element of the array that \<open>querySimilarDocuments\<close> returns. Its filter has
  removed the hits whose \<open>parentChunkId\<close> is null or undefined, so that field is a
  string here; the other metadata fields are read with \<open>match.metadata?.field\<close> and are
  undefined (\<open>None\<close>) when the entry lacks them. A JavaScript number is modelled as a
  \<^typ>\<open>real\<close>: scores are added, compared and divided exactly.
\<close>

record childResult =
  cr_documentId :: "string option"
  cr_documentTitle :: "string option"
  cr_childText :: "string option"
  cr_parentChunkId :: string
  cr_score :: real

text \<open>The value type of the \<open>parentScores\<close> map.\<close>

record parentScore =
  totalScore :: real
  maxScore :: real
  ps_documentId :: "string option"
  ps_documentTitle :: "string option"

text \<open>
  The callback of \<open>childResults.forEach((result, index) => ...)\<close>, with its constant
  \<open>rrfScore = 1 / (index + 60)\<close> as a function of the index. The \<open>Map\<close> is
  an association list in insertion order: \<open>Map.get\<close> is \<open>map_of\<close>, and \<open>Map.set\<close>
  (as well as the in-place update of the object a key maps to) is \<open>AList.update\<close>, which
  overwrites the value of a key where it stands and appends a new key at the end. The empty
  string is the only falsy string, so \<open>!result.parentChunkId\<close> is
  \<open>cr_parentChunkId result = []\<close>.
\<close>

definition rrfScore :: "nat \<Rightarrow> real" where
  "rrfScore index = 1 / (real index + 60)"

definition aggregateStep ::
  "childResult \<Rightarrow> nat \<Rightarrow> (string \<times> parentScore) list \<Rightarrow> (string \<times> parentScore) list"
where
  "aggregateStep result index parentScores =
     (if cr_parentChunkId result = [] then parentScores
      else
        (case map_of parentScores (cr_parentChunkId result) of
           Some existing \<Rightarrow>
             AList.update (cr_parentChunkId result)
               (existing\<lparr>totalScore := totalScore existing + rrfScore index,
                         maxScore := max (maxScore existing) (cr_score result)\<rparr>)
               parentScores
         | None \<Rightarrow>
             AList.update (cr_parentChunkId result)
               \<lparr>totalScore = rrfScore index,
                maxScore = cr_score result,
                ps_documentId = cr_documentId result,
                ps_documentTitle = cr_documentTitle result\<rparr>
               parentScores))"

text \<open>\<open>forEach\<close> itself: the callback on every element in order, with its index.\<close>

fun aggregateScores ::
  "childResult list \<Rightarrow> nat \<Rightarrow> (string \<times> parentScore) list \<Rightarrow> (string \<times> parentScore) list"
where
  "aggregateScores [] index parentScores = parentScores"
| "aggregateScores (result # results) index parentScores =
     aggregateScores results (index + 1) (aggregateStep result index parentScores)"

text \<open>
  The comparison function given to \<open>sort\<close>, on the values of two map entries. The
  numbers of the code are doubles and those of the model are exact reals: the totals and
  the test against 0.001 are exact here. The two decide a pair alike unless rounding moves
  the difference of the totals across the tolerance, as it can when the exact difference is
  0.001, which is a tie here.
\<close>

definition compareParents :: "string \<times> parentScore \<Rightarrow> string \<times> parentScore \<Rightarrow> real" where
  "compareParents a b =
     (if \<bar>totalScore (snd b) - totalScore (snd a)\<bar> > 0.001
      then totalScore (snd b) - totalScore (snd a)
      else maxScore (snd b) - maxScore (snd a))"

text \<open>
  \<open>Array.prototype.sort(comparefn)\<close>, modelled as a stable insertion sort: an element
  is placed before the first element of the sorted rest that the comparison does not put
  before it. ECMAScript fixes the result of \<open>sort\<close> only for a consistent comparison
  function, and then it is the result of every stable sort. For a comparison function that
  is not consistent the order is left to the engine, and the order of this model need not
  be the one an engine gives; the result is a permutation of the array in both.
\<close>

fun insertSorted :: "('a \<Rightarrow> 'a \<Rightarrow> real) \<Rightarrow> 'a \<Rightarrow> 'a list \<Rightarrow> 'a list" where
  "insertSorted comparefn x [] = [x]"
| "insertSorted comparefn x (y # ys) =
     (if comparefn x y \<le> 0 then x # y # ys else y # insertSorted comparefn x ys)"

definition jsSort :: "('a \<Rightarrow> 'a \<Rightarrow> real) \<Rightarrow> 'a list \<Rightarrow> 'a list" where
  "jsSort comparefn xs = foldr (insertSorted comparefn) xs []"

text \<open>
  \<open>sortedParents\<close>: the entries of the map, sorted, and \<open>.slice(0, 10)\<close>. The
  \<open>topK\<close> argument of \<open>searchVectorDatabase\<close> does not occur.
\<close>

definition sortedParents :: "childResult list \<Rightarrow> (string \<times> parentScore) list" where
  "sortedParents childResults =
     take 10 (jsSort compareParents (aggregateScores childResults 0 []))"

text \<open>
  The words of the specification, for comparison: the zero-based ranks at which the child
  hits of a parent appear in the hit list.
\<close>

definition ranksOf :: "string \<Rightarrow> childResult list \<Rightarrow> nat list" where
  "ranksOf parentId childResults =
     filter (\<lambda>i. cr_parentChunkId (childResults ! i) = parentId) [0..<length childResults]"

section \<open>The stores and the external collaborators\<close>

text \<open>
  The relational store (Prisma) and the vector index (Pinecone) are the state of the
  model; the embedding and reranking service (Voyage), the child splitter and the
  identifiers that the database generates are collaborators whose answers the code cannot
  predict. Every call of a collaborator is a suspension point (\<open>await\<close>) and may throw:
  a lost connection, a rejected credential or a violated uniqueness constraint is a throw
  of the schedule \<open>throws\<close> below. The rejections that the arguments and the store
  determine (a row that is missing) are written out in the operations.
\<close>

datatype jsError = JsError string

datatype ragSubtype = MEDICINE | DISEASE

text \<open>The columns of a \<open>Document\<close> row that the code reads or writes.\<close>

record document =
  doc_id :: string
  doc_isIngested :: bool
  doc_ragSubtype :: "ragSubtype option"

record parentChunk =
  pc_id :: string
  pc_documentId :: string
  pc_parentIndex :: nat
  pc_parentText :: string

text \<open>
  The data of a \<open>RagChunk\<close> row. \<open>chunkText\<close> is \<open>childChunks[idx]\<close>, which is
  undefined (\<open>None\<close>) when the index is out of range.
\<close>

record ragChunk =
  rc_documentId :: string
  rc_parentChunkId :: string
  rc_chunkIndex :: nat
  rc_chunkText :: "string option"
  rc_pineconeId :: string

text \<open>
  The metadata of a vector entry: a string-keyed map in which any key can be missing.
\<close>

record metadata =
  m_documentId :: "string option"
  m_documentTitle :: "string option"
  m_parentChunkId :: "string option"
  m_childText :: "string option"
  m_parentIndex :: "nat option"
  m_childIndex :: "nat option"
  m_patient :: "bool option"
  m_patientId :: "string option"
  m_type :: "string option"

record vectorEntry =
  v_id :: string
  v_values :: "real list option"
  v_metadata :: "metadata option"

text \<open>A match of a query of the vector index.\<close>

record scoredMatch =
  sm_id :: string
  sm_score :: "real option"
  sm_metadata :: "metadata option"

text \<open>An element of the \<open>data\<close> of the response of the reranker.\<close>

record rerankItem =
  ri_document :: "string option"
  ri_relevanceScore :: "real option"
  ri_index :: "nat option"

text \<open>
  The two metadata filters that the code builds: \<open>{type: t}\<close> and
  \<open>{type: {$in: ts}}\<close>. An entry matches when it has a \<open>type\<close> and that type is
  \<open>t\<close>, or is one of \<open>ts\<close>.
\<close>

datatype metadataFilter = TypeEq string | TypeIn "string list"

fun matchesFilter :: "metadataFilter \<Rightarrow> vectorEntry \<Rightarrow> bool" where
  "matchesFilter (TypeEq t) entry =
     (case v_metadata entry of None \<Rightarrow> False
      | Some m \<Rightarrow> (case m_type m of None \<Rightarrow> False | Some ty \<Rightarrow> ty = t))"
| "matchesFilter (TypeIn ts) entry =
     (case v_metadata entry of None \<Rightarrow> False
      | Some m \<Rightarrow> (case m_type m of None \<Rightarrow> False | Some ty \<Rightarrow> ty \<in> set ts))"

datatype inputType = DocumentInput | QueryInput

record world =
  documentTable :: "document list"
  parentChunkTable :: "parentChunk list"
  ragChunkTable :: "ragChunk list"
  vectorIndex :: "vectorEntry list"
  clock :: nat

text \<open>
  The behaviour of the collaborators, which every theorem leaves arbitrary. \<open>clock\<close>
  counts the collaborator calls made so far, and each answer may depend on the number of
  the call: \<open>throws n\<close> says whether call \<open>n\<close> throws; \<open>newId n\<close> is the id that the
  database gives to a row created by call \<open>n\<close>; \<open>splitText\<close> is the child splitter;
  \<open>embed\<close> is the \<open>data\<close> of the embedding response (\<open>None\<close> when the response has
  none), one optional vector for each element; \<open>vectorSearch\<close> is the answer of the
  vector index to a query, computed from the query vector, \<open>topK\<close> and the entries that
  satisfy the metadata filter (\<open>None\<close> for a response without \<open>matches\<close>); \<open>rerank\<close> is
  the \<open>data\<close> of the response of the reranker.
\<close>

record env =
  throws :: "nat \<Rightarrow> bool"
  newId :: "nat \<Rightarrow> string"
  splitText :: "nat \<Rightarrow> string \<Rightarrow> string list"
  embed :: "nat \<Rightarrow> inputType \<Rightarrow> string list \<Rightarrow> real list option list option"
  vectorSearch :: "nat \<Rightarrow> real list \<Rightarrow> nat \<Rightarrow> vectorEntry list \<Rightarrow> scoredMatch list option"
  rerank :: "nat \<Rightarrow> string \<Rightarrow> string list \<Rightarrow> nat \<Rightarrow> rerankItem list option"

subsection \<open>Asynchronous code with exceptions\<close>

text \<open>
  An \<open>async\<close> computation takes the world and returns the world together with a value
  (\<open>Inr\<close>) or a thrown error (\<open>Inl\<close>). \<open>ioBind\<close> is sequencing (\<open>await\<close> and the
  statements that follow), and \<open>tryCatch\<close> is \<open>try { ... } catch (e) { ... }\<close>.
\<close>

type_synonym 'a io = "world \<Rightarrow> (jsError + 'a) \<times> world"

definition ioReturn :: "'a \<Rightarrow> 'a io" where
  "ioReturn x w = (Inr x, w)"

definition ioThrow :: "jsError \<Rightarrow> 'a io" where
  "ioThrow e w = (Inl e, w)"

definition ioBind :: "'a io \<Rightarrow> ('a \<Rightarrow> 'b io) \<Rightarrow> 'b io" where
  "ioBind m f w = (case m w of (Inl e, w') \<Rightarrow> (Inl e, w') | (Inr x, w') \<Rightarrow> f x w')"

definition tryCatch :: "'a io \<Rightarrow> (jsError \<Rightarrow> 'a io) \<Rightarrow> 'a io" where
  "tryCatch m handler w = (case m w of (Inl e, w') \<Rightarrow> handler e w' | (Inr x, w') \<Rightarrow> (Inr x, w'))"

text \<open>
  A call of a collaborator: it advances the clock, and either throws, as \<open>throws\<close> says
  for this call, or responds. The response is given the number of the call.
\<close>

definition collaborator :: "env \<Rightarrow> (nat \<Rightarrow> 'a io) \<Rightarrow> 'a io" where
  "collaborator e respond w =
     (if throws e (clock w)
      then (Inl (JsError ''collaborator call failed''), w\<lparr>clock := clock w + 1\<rparr>)
      else respond (clock w) (w\<lparr>clock := clock w + 1\<rparr>))"

subsection \<open>The relational store\<close>

text \<open>\<open>prisma.document.findUnique({where: {id: documentId}})\<close>.\<close>

definition document_findUnique :: "env \<Rightarrow> string \<Rightarrow> document option io" where
  "document_findUnique e documentId =
     collaborator e (\<lambda>n w. (Inr (find (\<lambda>d. doc_id d = documentId) (documentTable w)), w))"

text \<open>
  \<open>prisma.document.update({where: {id: documentId}, data: {isIngested: flag}})\<close>, which
  throws when there is no such row.
\<close>

definition document_update :: "env \<Rightarrow> string \<Rightarrow> bool \<Rightarrow> unit io" where
  "document_update e documentId flag =
     collaborator e (\<lambda>n w.
       if find (\<lambda>d. doc_id d = documentId) (documentTable w) = None
       then (Inl (JsError ''record to update not found''), w)
       else (Inr (),
             w\<lparr>documentTable :=
                 map (\<lambda>d. if doc_id d = documentId then d\<lparr>doc_isIngested := flag\<rparr> else d)
                   (documentTable w)\<rparr>))"

text \<open>\<open>prisma.ragChunk.deleteMany({where: {documentId}})\<close>.\<close>

definition ragChunk_deleteMany :: "env \<Rightarrow> string \<Rightarrow> unit io" where
  "ragChunk_deleteMany e documentId =
     collaborator e (\<lambda>n w.
       (Inr (), w\<lparr>ragChunkTable := filter (\<lambda>c. rc_documentId c \<noteq> documentId) (ragChunkTable w)\<rparr>))"

text \<open>
  \<open>prisma.parentChunk.deleteMany({where: {documentId}})\<close>. The foreign key of
  \<open>RagChunk.parentChunkId\<close> is \<open>ON DELETE CASCADE\<close>: the rag chunks of a deleted parent
  go with it.
\<close>

definition parentChunk_deleteMany :: "env \<Rightarrow> string \<Rightarrow> unit io" where
  "parentChunk_deleteMany e documentId =
     collaborator e (\<lambda>n w.
       (Inr (),
        w\<lparr>parentChunkTable := filter (\<lambda>p. pc_documentId p \<noteq> documentId) (parentChunkTable w),
          ragChunkTable :=
            filter (\<lambda>c. rc_parentChunkId c \<notin>
                         pc_id ` set (filter (\<lambda>p. pc_documentId p = documentId) (parentChunkTable w)))
              (ragChunkTable w)\<rparr>))"

text \<open>
  \<open>prisma.parentChunk.create({data: {documentId, parentIndex, parentText}})\<close>. The
  foreign key of \<open>ParentChunk.documentId\<close> makes the call throw when there is no such
  document. The database generates the id of the row.
\<close>

definition parentChunk_create :: "env \<Rightarrow> string \<Rightarrow> nat \<Rightarrow> string \<Rightarrow> parentChunk io" where
  "parentChunk_create e documentId parentIndex parentText =
     collaborator e (\<lambda>n w.
       if find (\<lambda>d. doc_id d = documentId) (documentTable w) = None
       then (Inl (JsError ''foreign key constraint violated''), w)
       else
         (Inr \<lparr>pc_id = newId e n, pc_documentId = documentId, pc_parentIndex = parentIndex,
               pc_parentText = parentText\<rparr>,
          w\<lparr>parentChunkTable := parentChunkTable w @
               [\<lparr>pc_id = newId e n, pc_documentId = documentId, pc_parentIndex = parentIndex,
                 pc_parentText = parentText\<rparr>]\<rparr>))"

text \<open>
  \<open>prisma.ragChunk.createMany({data: rows})\<close>. \<open>chunkText\<close> is a required column: the
  call throws when a row has none.
\<close>

definition ragChunk_createMany :: "env \<Rightarrow> ragChunk list \<Rightarrow> unit io" where
  "ragChunk_createMany e rows =
     collaborator e (\<lambda>n w.
       if None \<in> rc_chunkText ` set rows
       then (Inl (JsError ''argument chunkText is missing''), w)
       else (Inr (), w\<lparr>ragChunkTable := ragChunkTable w @ rows\<rparr>))"

text \<open>\<open>prisma.ragChunk.findMany({where: {documentId}, select: {pineconeId: true}})\<close>.\<close>

definition ragChunk_findMany :: "env \<Rightarrow> string \<Rightarrow> string list io" where
  "ragChunk_findMany e documentId =
     collaborator e (\<lambda>n w.
       (Inr (map rc_pineconeId (filter (\<lambda>c. rc_documentId c = documentId) (ragChunkTable w))), w))"

text \<open>\<open>prisma.parentChunk.findMany({where: {id: {in: ids}}})\<close>.\<close>

definition parentChunk_findMany :: "env \<Rightarrow> string list \<Rightarrow> parentChunk list io" where
  "parentChunk_findMany e ids =
     collaborator e (\<lambda>n w. (Inr (filter (\<lambda>p. pc_id p \<in> set ids) (parentChunkTable w)), w))"

subsection \<open>The vector index\<close>

text \<open>\<open>index.upsert(vectors)\<close>: an entry replaces the entry of the same id, or is added.\<close>

fun upsertEntry :: "vectorEntry \<Rightarrow> vectorEntry list \<Rightarrow> vectorEntry list" where
  "upsertEntry v [] = [v]"
| "upsertEntry v (u # us) = (if v_id u = v_id v then v # us else u # upsertEntry v us)"

definition index_upsert :: "env \<Rightarrow> vectorEntry list \<Rightarrow> unit io" where
  "index_upsert e vs =
     collaborator e (\<lambda>n w. (Inr (), w\<lparr>vectorIndex := fold upsertEntry vs (vectorIndex w)\<rparr>))"

text \<open>\<open>index.deleteMany(ids)\<close>.\<close>

definition index_deleteMany :: "env \<Rightarrow> string list \<Rightarrow> unit io" where
  "index_deleteMany e ids =
     collaborator e (\<lambda>n w.
       (Inr (), w\<lparr>vectorIndex := filter (\<lambda>v. v_id v \<notin> set ids) (vectorIndex w)\<rparr>))"

text \<open>
  \<open>index.query({vector, topK, includeMetadata: true, filter})\<close>: the index answers from
  the entries that satisfy the filter (from all entries when there is no filter).
\<close>

definition index_query ::
  "env \<Rightarrow> real list \<Rightarrow> nat \<Rightarrow> metadataFilter option \<Rightarrow> scoredMatch list option io"
where
  "index_query e vector topK flt =
     collaborator e (\<lambda>n w.
       (Inr (vectorSearch e n vector topK
               (case flt of None \<Rightarrow> vectorIndex w
                | Some f \<Rightarrow> filter (matchesFilter f) (vectorIndex w))),
        w))"

subsection \<open>The embedding service, the reranker and the child splitter\<close>

definition voyage_embed ::
  "env \<Rightarrow> inputType \<Rightarrow> string list \<Rightarrow> real list option list option io"
where
  "voyage_embed e mode input = collaborator e (\<lambda>n w. (Inr (embed e n mode input), w))"

definition voyage_rerank ::
  "env \<Rightarrow> string \<Rightarrow> string list \<Rightarrow> nat \<Rightarrow> rerankItem list option io"
where
  "voyage_rerank e query docs topK = collaborator e (\<lambda>n w. (Inr (rerank e n query docs topK), w))"

definition childSplitter_splitText :: "env \<Rightarrow> string \<Rightarrow> string list io" where
  "childSplitter_splitText e text = collaborator e (\<lambda>n w. (Inr (splitText e n text), w))"

section \<open>Ingestion (embedAndStoreDocument, embedAndStorePatientDocument)\<close>

text \<open>\<open>xs[i]\<close>, which is undefined when \<open>i\<close> is out of range.\<close>

definition nthOpt :: "'a list \<Rightarrow> nat \<Rightarrow> 'a option" where
  "nthOpt xs i = (if i < length xs then Some (xs ! i) else None)"

text \<open>A number inside a template literal: its decimal digits.\<close>

fun showNat :: "nat \<Rightarrow> string" where
  "showNat n =
     (if n < 10 then [''0123456789'' ! n]
      else showNat (n div 10) @ [''0123456789'' ! (n mod 10)])"

declare showNat.simps [simp del]

definition pineconeId :: "string \<Rightarrow> nat \<Rightarrow> nat \<Rightarrow> string" where
  "pineconeId documentId parentIndex childIdx =
     documentId @ ''_parent'' @ showNat parentIndex @ ''_child'' @ showNat childIdx"

fun toLowerCase :: "ragSubtype \<Rightarrow> string" where
  "toLowerCase MEDICINE = ''medicine''"
| "toLowerCase DISEASE = ''disease''"

text \<open>
  The metadata object of \<open>embedAndStoreDocument\<close>; its type is
  \<open>document?.ragSubtype?.toLowerCase() ?? "medicine"\<close>.
\<close>

definition documentMetadata ::
  "string \<Rightarrow> string \<Rightarrow> document option \<Rightarrow> string \<Rightarrow> nat \<Rightarrow> nat \<Rightarrow> string option \<Rightarrow> metadata"
where
  "documentMetadata documentId documentTitle document parentChunkId parentIndex childIdx childText =
     \<lparr>m_documentId = Some documentId,
      m_documentTitle = Some documentTitle,
      m_parentChunkId = Some parentChunkId,
      m_childText = childText,
      m_parentIndex = Some parentIndex,
      m_childIndex = Some childIdx,
      m_patient = None,
      m_patientId = None,
      m_type = Some (case document of None \<Rightarrow> ''medicine''
                     | Some d \<Rightarrow> (case doc_ragSubtype d of None \<Rightarrow> ''medicine''
                                 | Some subtype \<Rightarrow> toLowerCase subtype))\<rparr>"

text \<open>The metadata object of \<open>embedAndStorePatientDocument\<close>.\<close>

definition patientMetadata ::
  "string \<Rightarrow> string \<Rightarrow> string \<Rightarrow> document option \<Rightarrow> string \<Rightarrow> nat \<Rightarrow> nat \<Rightarrow> string option
     \<Rightarrow> metadata"
where
  "patientMetadata documentId documentTitle patientId document parentChunkId parentIndex childIdx
       childText =
     \<lparr>m_documentId = Some documentId,
      m_documentTitle = Some documentTitle,
      m_parentChunkId = Some parentChunkId,
      m_childText = childText,
      m_parentIndex = Some parentIndex,
      m_childIndex = Some childIdx,
      m_patient = Some True,
      m_patientId = Some patientId,
      m_type = Some ''patient''\<rparr>"

text \<open>
  \<open>voyageEmbeddings.data?.map((embeddingResult, childIdx) => ...)\<close>, for the metadata
  object \<open>mkMetadata\<close> of the function at hand.
\<close>

definition buildVectors ::
  "(string \<Rightarrow> nat \<Rightarrow> nat \<Rightarrow> string option \<Rightarrow> metadata) \<Rightarrow> string \<Rightarrow> nat \<Rightarrow> parentChunk
     \<Rightarrow> string list \<Rightarrow> real list option list \<Rightarrow> vectorEntry list"
where
  "buildVectors mkMetadata documentId parentIndex parentChunk childChunks embeddings =
     map (\<lambda>(childIdx, embedding).
            \<lparr>v_id = pineconeId documentId parentIndex childIdx,
             v_values = embedding,
             v_metadata =
               Some (mkMetadata (pc_id parentChunk) parentIndex childIdx
                       (nthOpt childChunks childIdx))\<rparr>)
       (enumerate 0 embeddings)"

text \<open>The rows given to \<open>prisma.ragChunk.createMany\<close>: \<open>vectors.map((v, idx) => ...)\<close>.\<close>

definition buildRagChunks ::
  "string \<Rightarrow> nat \<Rightarrow> parentChunk \<Rightarrow> string list \<Rightarrow> vectorEntry list \<Rightarrow> ragChunk list"
where
  "buildRagChunks documentId parentIndex parentChunk childChunks vs =
     map (\<lambda>(idx, v).
            \<lparr>rc_documentId = documentId,
             rc_parentChunkId = pc_id parentChunk,
             rc_chunkIndex = parentIndex * 1000 + idx,
             rc_chunkText = nthOpt childChunks idx,
             rc_pineconeId = v_id v\<rparr>)
       (enumerate 0 vs)"

text \<open>
  \<open>processSingleParent\<close>, the same in both functions but for the metadata object. Its
  whole body after the first \<open>console.log\<close> is inside \<open>try\<close>, and the handler only logs.
\<close>

definition processSingleParent ::
  "env \<Rightarrow> (string \<Rightarrow> nat \<Rightarrow> nat \<Rightarrow> string option \<Rightarrow> metadata) \<Rightarrow> string \<Rightarrow> string \<Rightarrow> nat
     \<Rightarrow> unit io"
where
  "processSingleParent e mkMetadata documentId parentContent parentIndex =
     tryCatch
       (ioBind (parentChunk_create e documentId parentIndex parentContent) (\<lambda>parentChunk.
        ioBind (childSplitter_splitText e parentContent) (\<lambda>childChunks.
        if childChunks = [] then ioReturn ()
        else
          ioBind (voyage_embed e DocumentInput childChunks) (\<lambda>data.
          (case data of
             None \<Rightarrow> ioReturn ()
           | Some embeddings \<Rightarrow>
               if buildVectors mkMetadata documentId parentIndex parentChunk childChunks
                    embeddings \<noteq> []
               then
                 ioBind (index_upsert e
                           (buildVectors mkMetadata documentId parentIndex parentChunk
                              childChunks embeddings)) (\<lambda>_.
                 ragChunk_createMany e
                   (buildRagChunks documentId parentIndex parentChunk childChunks
                      (buildVectors mkMetadata documentId parentIndex parentChunk childChunks
                         embeddings)))
               else ioReturn ())))))
       (\<lambda>err. ioReturn ())"

text \<open>
  \<open>parentChunks.slice(1).map((chunk, idx) => processSingleParent(chunk, idx + 1))\<close>
  under \<open>Promise.all\<close>. The promises run interleaved; the model runs them one after the
  other in the order of their indices. None of them rejects, so \<open>Promise.all\<close> waits for
  all of them.
\<close>

fun processRemaining ::
  "env \<Rightarrow> (string \<Rightarrow> nat \<Rightarrow> nat \<Rightarrow> string option \<Rightarrow> metadata) \<Rightarrow> string \<Rightarrow> string list \<Rightarrow> nat
     \<Rightarrow> unit io"
where
  "processRemaining e mkMetadata documentId [] idx = ioReturn ()"
| "processRemaining e mkMetadata documentId (chunk # chunks) idx =
     ioBind (processSingleParent e mkMetadata documentId chunk (idx + 1)) (\<lambda>_.
     processRemaining e mkMetadata documentId chunks (idx + 1))"

text \<open>
  The per-parent stage: the first parent alone, then the remaining ones.
\<close>

definition processParents ::
  "env \<Rightarrow> (string \<Rightarrow> nat \<Rightarrow> nat \<Rightarrow> string option \<Rightarrow> metadata) \<Rightarrow> string \<Rightarrow> string list
     \<Rightarrow> unit io"
where
  "processParents e mkMetadata documentId parentChunks =
     ioBind (processSingleParent e mkMetadata documentId (parentChunks ! 0) 0) (\<lambda>_.
     if length parentChunks > 1
     then processRemaining e mkMetadata documentId (drop 1 parentChunks) 0
     else ioReturn ())"

text \<open>
  The body of the outer \<open>try\<close> of both functions, for the metadata object \<open>mkMetadata\<close>,
  which may use the row that \<open>findUnique\<close> returned. \<open>document?.isIngested\<close> is falsy
  when there is no row. \<open>textSplitterForRag(content)\<close> has the default maxLength 4000.
\<close>

definition embedAndStoreBody ::
  "env \<Rightarrow> (document option \<Rightarrow> string \<Rightarrow> nat \<Rightarrow> nat \<Rightarrow> string option \<Rightarrow> metadata) \<Rightarrow> string
     \<Rightarrow> string \<Rightarrow> bool io"
where
  "embedAndStoreBody e mkMetadata documentId content =
     ioBind (document_findUnique e documentId) (\<lambda>document.
     if (case document of None \<Rightarrow> False | Some d \<Rightarrow> doc_isIngested d) then ioReturn True
     else if textSplitterForRag content 4000 = [] then ioReturn True
     else
       ioBind (ragChunk_deleteMany e documentId) (\<lambda>_.
       ioBind (parentChunk_deleteMany e documentId) (\<lambda>_.
       ioBind (processParents e (mkMetadata document) documentId
                 (textSplitterForRag content 4000)) (\<lambda>_.
       ioBind (document_update e documentId True) (\<lambda>_.
       ioReturn True)))))"

definition embedAndStoreDocument :: "env \<Rightarrow> string \<Rightarrow> string \<Rightarrow> string \<Rightarrow> bool io" where
  "embedAndStoreDocument e documentId content documentTitle =
     tryCatch
       (embedAndStoreBody e (documentMetadata documentId documentTitle) documentId content)
       (\<lambda>error. ioReturn False)"

definition embedAndStorePatientDocument ::
  "env \<Rightarrow> string \<Rightarrow> string \<Rightarrow> string \<Rightarrow> string \<Rightarrow> bool io"
where
  "embedAndStorePatientDocument e documentId content documentTitle patientId =
     tryCatch
       (embedAndStoreBody e (patientMetadata documentId documentTitle patientId) documentId
          content)
       (\<lambda>error. ioReturn False)"

section \<open>deleteDocumentVectors\<close>

definition deleteDocumentVectorsBody :: "env \<Rightarrow> string \<Rightarrow> bool io" where
  "deleteDocumentVectorsBody e documentId =
     ioBind (ragChunk_findMany e documentId) (\<lambda>pineconeIds.
     ioBind (if pineconeIds \<noteq> [] then index_deleteMany e pineconeIds else ioReturn ()) (\<lambda>_.
     ioBind (parentChunk_deleteMany e documentId) (\<lambda>_.
     ioBind (document_update e documentId False) (\<lambda>_.
     ioReturn True))))"

definition deleteDocumentVectors :: "env \<Rightarrow> string \<Rightarrow> bool io" where
  "deleteDocumentVectors e documentId =
     tryCatch (deleteDocumentVectorsBody e documentId) (\<lambda>error. ioReturn False)"

section \<open>Retrieval (querySimilarDocuments, getParentTexts, rerankDocuments, searchVectorDatabase)\<close>

text \<open>\<open>match.metadata?.field\<close>.\<close>

definition metadataField :: "(metadata \<Rightarrow> 'a option) \<Rightarrow> scoredMatch \<Rightarrow> 'a option" where
  "metadataField field m = (case sm_metadata m of None \<Rightarrow> None | Some md \<Rightarrow> field md)"

text \<open>
  \<open>results.matches.map(...).filter((result) => result.parentChunkId != null)\<close>, with
  \<open>match.score ?? 0\<close>.
\<close>

fun toChildResults :: "scoredMatch list \<Rightarrow> childResult list" where
  "toChildResults [] = []"
| "toChildResults (m # ms) =
     (case metadataField m_parentChunkId m of
        None \<Rightarrow> toChildResults ms
      | Some parentChunkId \<Rightarrow>
          \<lparr>cr_documentId = metadataField m_documentId m,
           cr_documentTitle = metadataField m_documentTitle m,
           cr_childText = metadataField m_childText m,
           cr_parentChunkId = parentChunkId,
           cr_score = (case sm_score m of None \<Rightarrow> 0 | Some s \<Rightarrow> s)\<rparr>
          # toChildResults ms)"

text \<open>
  \<open>querySimilarDocuments\<close>. \<open>queryEmbedding.data?.[0]?.embedding\<close> is undefined when
  the response has no data, no first element, or no vector in it.
\<close>

definition querySimilarDocuments ::
  "env \<Rightarrow> string \<Rightarrow> nat \<Rightarrow> metadataFilter option \<Rightarrow> childResult list io"
where
  "querySimilarDocuments e query topK flt =
     tryCatch
       (ioBind (voyage_embed e QueryInput [query]) (\<lambda>queryEmbedding.
        (case (case queryEmbedding of None \<Rightarrow> None
               | Some data \<Rightarrow> (case nthOpt data 0 of None \<Rightarrow> None | Some item \<Rightarrow> item)) of
           None \<Rightarrow> ioReturn []
         | Some queryVector \<Rightarrow>
             ioBind (index_query e queryVector topK flt) (\<lambda>matches.
             ioReturn (case matches of None \<Rightarrow> [] | Some ms \<Rightarrow> toChildResults ms)))))
       (\<lambda>error. ioReturn [])"

text \<open>
  \<open>getParentTexts\<close>. The ids are strings, so none is filtered out. The \<open>Map\<close> is an
  association list, as above.
\<close>

definition getParentTexts :: "env \<Rightarrow> string list \<Rightarrow> (string \<times> string) list io" where
  "getParentTexts e parentChunkIds =
     tryCatch
       (if parentChunkIds = [] then ioReturn []
        else
          ioBind (parentChunk_findMany e parentChunkIds) (\<lambda>chunks.
          ioReturn (fold (\<lambda>chunk m. AList.update (pc_id chunk) (pc_parentText chunk) m) chunks [])))
       (\<lambda>error. ioReturn [])"

text \<open>An element of the result of \<open>rerankDocuments\<close>.\<close>

record rerankedDoc =
  rd_document :: string
  rd_relevanceScore :: real
  rd_index :: nat

text \<open>
  \<open>rerankDocuments(query, documents, topK?)\<close>: \<open>topK ?? documents.length\<close>, and
  \<open>doc.document ?? ""\<close>, \<open>doc.relevanceScore ?? 0\<close>, \<open>doc.index ?? 0\<close>.
\<close>

definition rerankDocuments ::
  "env \<Rightarrow> string \<Rightarrow> string list \<Rightarrow> nat option \<Rightarrow> rerankedDoc list io"
where
  "rerankDocuments e query docs topK =
     tryCatch
       (if docs = [] then ioReturn []
        else
          ioBind (voyage_rerank e query docs (case topK of None \<Rightarrow> length docs | Some k \<Rightarrow> k))
            (\<lambda>rerankedResult.
          (case rerankedResult of
             None \<Rightarrow> ioReturn []
           | Some data \<Rightarrow>
               if data = [] then ioReturn []
               else
                 ioReturn
                   (map (\<lambda>doc.
                          \<lparr>rd_document = (case ri_document doc of None \<Rightarrow> [] | Some d \<Rightarrow> d),
                           rd_relevanceScore =
                             (case ri_relevanceScore doc of None \<Rightarrow> 0 | Some s \<Rightarrow> s),
                           rd_index = (case ri_index doc of None \<Rightarrow> 0 | Some i \<Rightarrow> i)\<rparr>)
                      data))))
       (\<lambda>error. ioReturn [])"

text \<open>\<open>ParentSearchResult\<close>.\<close>

record parentSearchResult =
  psr_parentChunkId :: string
  psr_parentText :: string
  psr_documentId :: "string option"
  psr_documentTitle :: "string option"
  psr_score :: real

datatype typeFilter = FilterMedicine | FilterDisease | FilterAll

fun typeFilterString :: "typeFilter \<Rightarrow> string" where
  "typeFilterString FilterMedicine = ''medicine''"
| "typeFilterString FilterDisease = ''disease''"
| "typeFilterString FilterAll = ''all''"

text \<open>The filter of \<open>searchVectorDatabase\<close>.\<close>

definition buildFilter :: "typeFilter \<Rightarrow> metadataFilter" where
  "buildFilter typeFilter =
     (if typeFilter = FilterAll then TypeIn [''medicine'', ''disease'']
      else TypeEq (typeFilterString typeFilter))"

text \<open>
  \<open>intermediateResults\<close>, with \<open>parentTexts.get(parentChunkId) || ""\<close>.
\<close>

definition intermediateResults ::
  "(string \<times> string) list \<Rightarrow> (string \<times> parentScore) list \<Rightarrow> parentSearchResult list"
where
  "intermediateResults parentTexts sortedPs =
     map (\<lambda>(parentChunkId, data).
            \<lparr>psr_parentChunkId = parentChunkId,
             psr_parentText = (case map_of parentTexts parentChunkId of None \<Rightarrow> [] | Some t \<Rightarrow> t),
             psr_documentId = ps_documentId data,
             psr_documentTitle = ps_documentTitle data,
             psr_score = maxScore data\<rparr>)
       sortedPs"

text \<open>The filter with the set \<open>seenTexts\<close>.\<close>

fun uniqueByText :: "parentSearchResult list \<Rightarrow> string set \<Rightarrow> parentSearchResult list" where
  "uniqueByText [] seenTexts = []"
| "uniqueByText (result # results) seenTexts =
     (if psr_parentText result = [] \<or> psr_parentText result \<in> seenTexts
      then uniqueByText results seenTexts
      else result # uniqueByText results (insert (psr_parentText result) seenTexts))"

definition uniqueResults ::
  "(string \<times> string) list \<Rightarrow> childResult list \<Rightarrow> parentSearchResult list"
where
  "uniqueResults parentTexts childResults =
     uniqueByText (intermediateResults parentTexts (sortedParents childResults)) {}"

text \<open>
  \<open>rerankedDocs.map((reranked) => ...)\<close>. \<open>uniqueResults[reranked.index]\<close> is
  undefined when the index is out of range, and reading a property of it throws a
  TypeError: the result is \<open>None\<close> then.
\<close>

definition mapReranked ::
  "parentSearchResult list \<Rightarrow> rerankedDoc list \<Rightarrow> parentSearchResult list option"
where
  "mapReranked unique rerankedDocs =
     those (map (\<lambda>reranked.
                   (case nthOpt unique (rd_index reranked) of
                      None \<Rightarrow> None
                    | Some original \<Rightarrow>
                        Some \<lparr>psr_parentChunkId = psr_parentChunkId original,
                              psr_parentText = psr_parentText original,
                              psr_documentId = psr_documentId original,
                              psr_documentTitle = psr_documentTitle original,
                              psr_score = rd_relevanceScore reranked\<rparr>))
              rerankedDocs)"

text \<open>
  \<open>query.trim()\<close> removes white space and line terminators at both ends. Of these,
  the ones that a \<^typ>\<open>char\<close> can be are tab, line feed, vertical tab, form feed,
  carriage return, space and no-break space.
\<close>

definition isWhiteSpace :: "char \<Rightarrow> bool" where
  "isWhiteSpace c = (c \<in> {CHR 0x09, CHR 0x0A, CHR 0x0B, CHR 0x0C, CHR 0x0D, CHR 0x20, CHR 0xA0})"

definition trim :: "string \<Rightarrow> string" where
  "trim s = rev (dropWhile isWhiteSpace (rev (dropWhile isWhiteSpace s)))"

text \<open>The body of the \<open>try\<close> of \<open>searchVectorDatabase\<close>.\<close>

definition searchVectorDatabaseBody ::
  "env \<Rightarrow> string \<Rightarrow> nat \<Rightarrow> typeFilter \<Rightarrow> parentSearchResult list io"
where
  "searchVectorDatabaseBody e query topK typeFilter =
     ioBind (querySimilarDocuments e query topK (Some (buildFilter typeFilter))) (\<lambda>childResults.
     if childResults = [] then ioReturn []
     else
       ioBind (getParentTexts e (map fst (sortedParents childResults))) (\<lambda>parentTexts.
       if uniqueResults parentTexts childResults = [] then ioReturn []
       else
         ioBind (rerankDocuments e query
                   (map psr_parentText (uniqueResults parentTexts childResults)) None)
           (\<lambda>rerankedDocs.
         if rerankedDocs = [] then ioReturn (uniqueResults parentTexts childResults)
         else
           (case mapReranked (uniqueResults parentTexts childResults) rerankedDocs of
              None \<Rightarrow> ioThrow (JsError ''TypeError: cannot read properties of undefined'')
            | Some results \<Rightarrow> ioReturn results))))"

definition searchVectorDatabase ::
  "env \<Rightarrow> string \<Rightarrow> nat \<Rightarrow> typeFilter \<Rightarrow> parentSearchResult list io"
where
  "searchVectorDatabase e query topK typeFilter =
     (if trim query = [] then ioReturn []
      else tryCatch (searchVectorDatabaseBody e query topK typeFilter) (\<lambda>error. ioReturn []))"


text \<open>Sample hit lists: a child hit of a parent with a raw similarity score.\<close>

definition hit :: "string \<Rightarrow> real \<Rightarrow> childResult" where
  "hit parentId s =
     \<lparr>cr_documentId = Some ''doc'', cr_documentTitle = Some ''title'', cr_childText = None,
      cr_parentChunkId = parentId, cr_score = s\<rparr>"


definition sampleHits :: "childResult list" where
  "sampleHits = [hit ''a'' 0.9, hit ''b'' 0.8, hit ''a'' 0.7]"


text \<open>Auxiliary readings of the \<open>parentScores\<close> map, used in the proofs.\<close>

definition totalOf :: "(string \<times> parentScore) list \<Rightarrow> string \<Rightarrow> real" where
  "totalOf m k = (case map_of m k of None \<Rightarrow> 0 | Some ps \<Rightarrow> totalScore ps)"

definition maxOf :: "(string \<times> parentScore) list \<Rightarrow> string \<Rightarrow> real option" where
  "maxOf m k = map_option maxScore (map_of m k)"

definition maxStep :: "real option \<Rightarrow> real \<Rightarrow> real option" where
  "maxStep acc s = Some (case acc of None \<Rightarrow> s | Some m \<Rightarrow> max m s)"

text \<open>
  The world in which the per-parent stage of an ingestion starts: the world after the
  lookup of the document and the two clean-up deletes (the second of which cascades).
\<close>

definition afterCleanup :: "string \<Rightarrow> world \<Rightarrow> world" where
  "afterCleanup documentId w =
     w\<lparr>parentChunkTable := filter (\<lambda>p. pc_documentId p \<noteq> documentId) (parentChunkTable w),
       ragChunkTable :=
         filter (\<lambda>c. rc_parentChunkId c \<notin>
                      pc_id ` set (filter (\<lambda>p. pc_documentId p = documentId) (parentChunkTable w)))
           (filter (\<lambda>c. rc_documentId c \<noteq> documentId) (ragChunkTable w)),
       clock := clock w + 3\<rparr>"

text \<open>A computation that leaves a component of the world as it is.\<close>

definition keeps :: "(world \<Rightarrow> 'b) \<Rightarrow> 'a io \<Rightarrow> bool" where
  "keeps f m = (\<forall>w. f (snd (m w)) = f w)"

text \<open>An entry of the vector index that carries the type tag of patient documents.\<close>

definition patientTagged :: "vectorEntry \<Rightarrow> bool" where
  "patientTagged v =
     (case v_metadata v of None \<Rightarrow> False | Some m \<Rightarrow> m_type m = Some ''patient'')"

text \<open>
  Two worlds that a search under the filter \<open>flt\<close> cannot tell apart, and a computation
  that gives the same result in two such worlds and leaves them so.
\<close>

definition sameView :: "metadataFilter \<Rightarrow> world \<Rightarrow> world \<Rightarrow> bool" where
  "sameView flt w1 w2 =
     (parentChunkTable w1 = parentChunkTable w2 \<and> clock w1 = clock w2
      \<and> filter (matchesFilter flt) (vectorIndex w1) = filter (matchesFilter flt) (vectorIndex w2))"

definition agrees :: "metadataFilter \<Rightarrow> 'a io \<Rightarrow> bool" where
  "agrees flt m =
     (\<forall>w1 w2. sameView flt w1 w2 \<longrightarrow>
        fst (m w1) = fst (m w2) \<and> sameView flt (snd (m w1)) (snd (m w2)))"

section \<open>Sample collaborators and stores\<close>

text \<open>
  A store with one document that is not ingested and one that is, with one parent chunk,
  one child chunk and its vector.
\<close>

definition sampleMetadata :: "string \<Rightarrow> string \<Rightarrow> string \<Rightarrow> metadata" where
  "sampleMetadata documentId parentChunkId typeTag =
     \<lparr>m_documentId = Some documentId, m_documentTitle = Some ''title'',
      m_parentChunkId = Some parentChunkId, m_childText = Some ''aspirin'',
      m_parentIndex = Some 0, m_childIndex = Some 0, m_patient = None, m_patientId = None,
      m_type = Some typeTag\<rparr>"

definition sampleWorld :: world where
  "sampleWorld =
     \<lparr>documentTable =
        [\<lparr>doc_id = ''doc1'', doc_isIngested = False, doc_ragSubtype = Some MEDICINE\<rparr>,
         \<lparr>doc_id = ''doc2'', doc_isIngested = True, doc_ragSubtype = None\<rparr>],
      parentChunkTable =
        [\<lparr>pc_id = ''p1'', pc_documentId = ''doc2'', pc_parentIndex = 0,
          pc_parentText = ''aspirin''\<rparr>],
      ragChunkTable =
        [\<lparr>rc_documentId = ''doc2'', rc_parentChunkId = ''p1'', rc_chunkIndex = 0,
          rc_chunkText = Some ''aspirin'', rc_pineconeId = ''doc2_parent0_child0''\<rparr>],
      vectorIndex =
        [\<lparr>v_id = ''doc2_parent0_child0'', v_values = Some [1],
          v_metadata = Some (sampleMetadata ''doc2'' ''p1'' ''medicine'')\<rparr>],
      clock = 0\<rparr>"

text \<open>The same store with the vector of a patient document in the index.\<close>

definition sampleWorldWithPatient :: world where
  "sampleWorldWithPatient =
     sampleWorld\<lparr>vectorIndex :=
       \<lparr>v_id = ''doc9_parent0_child0'', v_values = Some [1],
        v_metadata = Some (sampleMetadata ''doc9'' ''p9'' ''patient'')\<rparr>
       # vectorIndex sampleWorld\<rparr>"

text \<open>
  Collaborators that answer in the simplest way: the child splitter returns a non-empty
  text as one chunk, every embedding is the vector \<open>[1]\<close>, and the index returns the
  first \<open>topK\<close> entries with score 0.9. The calls that throw and the answer of the
  reranker are left open.
\<close>

definition sampleEnv :: "(nat \<Rightarrow> bool) \<Rightarrow> rerankItem list option \<Rightarrow> env" where
  "sampleEnv faults reranked =
     \<lparr>throws = faults,
      newId = (\<lambda>n. ''id'' @ showNat n),
      splitText = (\<lambda>n text. if text = [] then [] else [text]),
      embed = (\<lambda>n mode input. Some (map (\<lambda>t. Some [1]) input)),
      vectorSearch = (\<lambda>n vector topK entries.
        Some (take topK (map (\<lambda>v. \<lparr>sm_id = v_id v, sm_score = Some 0.9,
                                    sm_metadata = v_metadata v\<rparr>) entries))),
      rerank = (\<lambda>n query docs topK. reranked)\<rparr>"

section \<open>Properties of the splitter\<close>

lemma concat_splitLoop: "concat (splitLoop header cur rest) = cur @ rest"
  by (induction rest arbitrary: cur) auto

lemma concat_splitLookahead: "concat (splitLookahead header content) = content"
  by (simp add: splitLookahead_def concat_splitLoop)

lemma concat_accumulateParts:
  "(\<And>part. part \<in> set parts \<Longrightarrow> concat (recurse part) = part) \<Longrightarrow>
   concat (accumulateParts recurse maxLength parts result accumulated)
     = concat result @ accumulated @ concat parts"
  by (induction parts arbitrary: result accumulated) auto

lemma concat_splitByHeader: "concat (splitByHeader maxLength content headerLevel) = content"
proof (induction maxLength content headerLevel rule: splitByHeader.induct)
  case (1 maxLength content headerLevel)
  show ?case
  proof (cases "int (length content) \<le> maxLength \<or> headerLevel \<ge> length headers")
    case True
    then show ?thesis by (subst splitByHeader.simps) auto
  next
    case False
    then show ?thesis
      using 1 by (subst splitByHeader.simps) (simp add: concat_accumulateParts concat_splitLookahead)
  qed
qed

text \<open>
  Claim C2 (splitter coverage). For every input text and every maxLength (in particular
  every maxLength \<open>\<ge> 1\<close>), concatenating in order the segments returned by
  \<open>textSplitterForRag(text, maxLength)\<close> yields exactly the original text: no character is
  lost, duplicated or reordered.
\<close>

theorem textSplitterForRag_coverage:
  "concat (textSplitterForRag text maxLength) = text"
  by (simp add: textSplitterForRag_def concat_splitByHeader)

text \<open>
  The example of the specification: two sections of 54 and 55 characters and
  \<open>maxLength = 100\<close> give two segments, the second of which starts at the line feed
  before its heading.
\<close>

lemma textSplitterForRag_example:
  "textSplitterForRag
     (''# A\<newline>'' @ replicate 50 CHR ''x'' @ ''\<newline># B\<newline>'' @ replicate 50 CHR ''y'') 100
   = [''# A\<newline>'' @ replicate 50 CHR ''x'', ''\<newline># B\<newline>'' @ replicate 50 CHR ''y'']"
  by (simp add: textSplitterForRag_def splitByHeader.simps headers_def splitLookahead_def
      eval_nat_numeral)

lemma fold_max_le:
  fixes xs :: "nat list"
  shows "a \<le> b \<Longrightarrow> (\<And>x. x \<in> set xs \<Longrightarrow> x \<le> b) \<Longrightarrow> fold max xs a \<le> b"
  by (induction xs arbitrary: a) auto

lemma length_headers: "length headers = 4"
  by (simp add: headers_def)

text \<open>
  Claim C9 (splitter termination). \<open>splitByHeader\<close> is a total function: its termination
  proof is the measure \<open>4 - headerLevel\<close>, which decreases at both recursive calls (the
  no-split path and the oversized-part path) because each passes \<open>headerLevel + 1\<close> and is
  made only while \<open>headerLevel < 4\<close>. Its recursion depth is at most \<open>4 - headerLevel\<close>,
  so at most 4 for the call \<open>splitByHeader(text, 0)\<close> that \<open>textSplitterForRag\<close> makes,
  for every text and every maxLength.
\<close>

theorem splitByHeader_depth_bounded:
  "splitByHeaderDepth maxLength content headerLevel \<le> 4 - headerLevel"
proof (induction maxLength content headerLevel rule: splitByHeaderDepth.induct)
  case (1 maxLength content headerLevel)
  show ?case
  proof (cases "int (length content) \<le> maxLength \<or> headerLevel \<ge> length headers")
    case True
    then show ?thesis by (subst splitByHeaderDepth.simps) auto
  next
    case False
    then have level: "headerLevel < 4" by (simp add: length_headers)
    show ?thesis
    proof (cases "length (splitLookahead (headers ! headerLevel) content) = 1")
      case True
      with False 1(1) level show ?thesis by (subst splitByHeaderDepth.simps) auto
    next
      case several: False
      have "x \<le> 4 - headerLevel"
        if "x \<in> set (map (\<lambda>part. 1 + splitByHeaderDepth maxLength part (headerLevel + 1))
                (filter (\<lambda>part. int (length part) > maxLength)
                   (splitLookahead (headers ! headerLevel) content)))" for x
        using that False several 1(2) level by fastforce
      then have "fold max
             (map (\<lambda>part. 1 + splitByHeaderDepth maxLength part (headerLevel + 1))
                (filter (\<lambda>part. int (length part) > maxLength)
                   (splitLookahead (headers ! headerLevel) content)))
             0 \<le> 4 - headerLevel"
        by (intro fold_max_le) simp_all
      then show ?thesis using False several
        by (subst splitByHeaderDepth.simps) simp
    qed
  qed
qed

text \<open>
  The bound is attained: a text without headings that is longer than \<open>maxLength\<close> goes
  through all four levels.
\<close>

lemma splitByHeaderDepth_attained: "splitByHeaderDepth 0 ''x'' 0 = 4"
  by (simp add: splitByHeaderDepth.simps headers_def splitLookahead_def)

section \<open>Properties of the aggregation\<close>

lemma ranksOf_Nil: "ranksOf parentId [] = []"
  by (simp add: ranksOf_def)

lemma ranksOf_Cons:
  "ranksOf parentId (r # rs) =
     (if cr_parentChunkId r = parentId then [0] else []) @ map Suc (ranksOf parentId rs)"
proof -
  have "[0..<length (r # rs)] = 0 # map Suc [0..<length rs]"
    by (simp add: upt_conv_Cons map_Suc_upt del: upt_Suc)
  then show ?thesis
    by (simp add: ranksOf_def filter_map comp_def del: upt_Suc)
qed

lemma distinct_ranksOf: "distinct (ranksOf parentId childResults)"
  by (simp add: ranksOf_def)

lemma ranksOf_empty_iff:
  "ranksOf parentId childResults = [] \<longleftrightarrow> parentId \<notin> cr_parentChunkId ` set childResults"
  by (induction childResults) (auto simp: ranksOf_Nil ranksOf_Cons)

lemma aggregateStep_None:
  "map_of (aggregateStep r index acc) parentId = None \<longleftrightarrow>
     map_of acc parentId = None \<and> (parentId = [] \<or> cr_parentChunkId r \<noteq> parentId)"
  by (auto simp: aggregateStep_def update_conv' split: option.splits)

lemma aggregateScores_None:
  "map_of (aggregateScores childResults index acc) parentId = None \<longleftrightarrow>
     map_of acc parentId = None \<and> (parentId = [] \<or> parentId \<notin> cr_parentChunkId ` set childResults)"
  by (induction childResults arbitrary: index acc) (auto simp: aggregateStep_None)

lemma aggregateStep_total:
  "parentId \<noteq> [] \<Longrightarrow>
   totalOf (aggregateStep r index acc) parentId =
     totalOf acc parentId + (if cr_parentChunkId r = parentId then rrfScore index else 0)"
  by (auto simp: aggregateStep_def totalOf_def update_conv' split: option.splits)

lemma aggregateScores_total:
  "parentId \<noteq> [] \<Longrightarrow>
   totalOf (aggregateScores childResults index acc) parentId =
     totalOf acc parentId + (\<Sum>i\<leftarrow>ranksOf parentId childResults. rrfScore (index + i))"
proof (induction childResults arbitrary: index acc)
  case Nil
  then show ?case by (simp add: ranksOf_Nil)
next
  case (Cons r rs)
  show ?case
    using Cons.prems
    by (simp add: Cons.IH aggregateStep_total ranksOf_Cons comp_def)
qed

lemma aggregateStep_max:
  "parentId \<noteq> [] \<Longrightarrow>
   maxOf (aggregateStep r index acc) parentId =
     (if cr_parentChunkId r = parentId then maxStep (maxOf acc parentId) (cr_score r)
      else maxOf acc parentId)"
  by (auto simp: aggregateStep_def maxOf_def maxStep_def update_conv' split: option.splits)

lemma aggregateScores_max:
  "parentId \<noteq> [] \<Longrightarrow>
   maxOf (aggregateScores childResults index acc) parentId =
     foldl maxStep (maxOf acc parentId)
       (map (\<lambda>i. cr_score (childResults ! i)) (ranksOf parentId childResults))"
proof (induction childResults arbitrary: index acc)
  case Nil
  then show ?case by (simp add: ranksOf_Nil)
next
  case (Cons r rs)
  show ?case
    using Cons.prems
    by (simp add: Cons.IH aggregateStep_max ranksOf_Cons comp_def)
qed

lemma Max_insert_insert:
  fixes a b :: real
  shows "finite S \<Longrightarrow> Max (insert (max a b) S) = max a (Max (insert b S))"
  by (cases "S = {}") (simp_all add: max.assoc)

lemma foldl_maxStep_Some:
  "foldl maxStep (Some m) xs = Some (Max (insert m (set xs)))"
  by (induction xs arbitrary: m) (simp_all add: maxStep_def Max_insert_insert)

lemma foldl_maxStep_None:
  "xs \<noteq> [] \<Longrightarrow> foldl maxStep None xs = Some (Max (set xs))"
  by (cases xs) (simp_all add: maxStep_def foldl_maxStep_Some)

lemma rrfScore_pos: "0 < rrfScore i"
  by (simp add: rrfScore_def add_pos_nonneg)

lemma rrfScore_antimono: "i \<le> j \<Longrightarrow> rrfScore j \<le> rrfScore i"
  by (simp add: rrfScore_def frac_le)

lemma rrf_dominance:
  assumes inj: "inj_on f (set (ranksOf b childResults))"
    and sub: "f ` set (ranksOf b childResults) \<subseteq> set (ranksOf a childResults)"
    and le: "\<And>i. i \<in> set (ranksOf b childResults) \<Longrightarrow> f i \<le> i"
  shows "(\<Sum>i\<leftarrow>ranksOf b childResults. rrfScore i) \<le> (\<Sum>i\<leftarrow>ranksOf a childResults. rrfScore i)"
proof -
  let ?B = "set (ranksOf b childResults)" and ?A = "set (ranksOf a childResults)"
  have "(\<Sum>i\<leftarrow>ranksOf b childResults. rrfScore i) = sum rrfScore ?B"
    by (simp add: sum_list_distinct_conv_sum_set distinct_ranksOf)
  also have "\<dots> \<le> sum (\<lambda>i. rrfScore (f i)) ?B"
    by (intro sum_mono rrfScore_antimono le)
  also have "\<dots> = sum rrfScore (f ` ?B)"
    using inj by (simp add: sum.reindex)
  also have "\<dots> \<le> sum rrfScore ?A"
    using sub by (intro sum_mono2) (auto simp: less_imp_le rrfScore_pos)
  also have "\<dots> = (\<Sum>i\<leftarrow>ranksOf a childResults. rrfScore i)"
    by (simp add: sum_list_distinct_conv_sum_set distinct_ranksOf)
  finally show ?thesis .
qed

text \<open>
  Claim C3 (reciprocal rank fusion). After the aggregation over the hit list, every
  non-empty parent-chunk id \<open>a\<close> that occurs in it has an entry whose totalScore is the
  sum of \<open>1 / (i + 60)\<close> over the zero-based ranks \<open>i\<close> of its hits and whose maxScore
  is the maximum raw score among those hits. Consequently, a parent \<open>b\<close> each of whose
  hits is matched by a hit of \<open>a\<close> of its own at a rank that is no worse (an injection
  \<open>f\<close> from the ranks of \<open>b\<close> into the ranks of \<open>a\<close> with \<open>f i \<le> i\<close>; \<open>a\<close> may
  have further hits) has a totalScore that is at most that of \<open>a\<close>.
\<close>

theorem rrf_aggregation:
  assumes a: "a \<noteq> []" "a \<in> cr_parentChunkId ` set childResults"
  shows "\<exists>psA. map_of (aggregateScores childResults 0 []) a = Some psA
           \<and> totalScore psA = (\<Sum>i\<leftarrow>ranksOf a childResults. 1 / (real i + 60))
           \<and> maxScore psA = Max ((\<lambda>i. cr_score (childResults ! i)) ` set (ranksOf a childResults))
           \<and> (\<forall>b psB f. map_of (aggregateScores childResults 0 []) b = Some psB
                 \<and> inj_on f (set (ranksOf b childResults))
                 \<and> f ` set (ranksOf b childResults) \<subseteq> set (ranksOf a childResults)
                 \<and> (\<forall>i \<in> set (ranksOf b childResults). f i \<le> i)
               \<longrightarrow> totalScore psB \<le> totalScore psA)"
proof -
  let ?agg = "aggregateScores childResults 0 []"
  have total: "totalOf ?agg p = (\<Sum>i\<leftarrow>ranksOf p childResults. rrfScore i)" if "p \<noteq> []" for p
    using aggregateScores_total[OF that, of childResults 0 "[]"] by (simp add: totalOf_def)
  from a obtain psA where psA: "map_of ?agg a = Some psA"
    using aggregateScores_None[of childResults 0 "[]" a] by auto
  have ranks: "ranksOf a childResults \<noteq> []"
    using a by (simp add: ranksOf_empty_iff)
  have tA: "totalScore psA = (\<Sum>i\<leftarrow>ranksOf a childResults. rrfScore i)"
    using total[OF a(1)] psA by (simp add: totalOf_def)
  have "maxOf ?agg a = Some (Max (set (map (\<lambda>i. cr_score (childResults ! i)) (ranksOf a childResults))))"
    using aggregateScores_max[OF a(1), of childResults 0 "[]"] ranks
    by (simp add: maxOf_def foldl_maxStep_None del: set_map)
  then have mA: "maxScore psA = Max ((\<lambda>i. cr_score (childResults ! i)) ` set (ranksOf a childResults))"
    using psA by (simp add: maxOf_def)
  have dom: "totalScore psB \<le> totalScore psA"
    if b: "map_of ?agg b = Some psB"
      and inj: "inj_on f (set (ranksOf b childResults))"
      and sub: "f ` set (ranksOf b childResults) \<subseteq> set (ranksOf a childResults)"
      and le: "\<forall>i \<in> set (ranksOf b childResults). f i \<le> i" for b psB f
  proof -
    have "b \<noteq> []" using b aggregateScores_None[of childResults 0 "[]" b] by auto
    then have "totalScore psB = (\<Sum>i\<leftarrow>ranksOf b childResults. rrfScore i)"
      using total[of b] b by (simp add: totalOf_def)
    with tA rrf_dominance[OF inj sub] le show ?thesis by simp
  qed
  from psA tA mA dom show ?thesis
    unfolding rrfScore_def by blast
qed

theorem rrf_aggregation_witness:
  "\<exists>psA psB. map_of (aggregateScores sampleHits 0 []) ''a'' = Some psA
      \<and> map_of (aggregateScores sampleHits 0 []) ''b'' = Some psB
      \<and> totalScore psA = 1 / 60 + 1 / 62 \<and> maxScore psA = 0.9
      \<and> totalScore psB \<le> totalScore psA"
proof -
  have occurs: "''a'' \<in> cr_parentChunkId ` set sampleHits"
    by (simp add: sampleHits_def hit_def)
  have ranksA: "ranksOf ''a'' sampleHits = [0, 2]" and ranksB: "ranksOf ''b'' sampleHits = [1]"
    by (simp_all add: ranksOf_def sampleHits_def hit_def upt_rec)
  from rrf_aggregation[of "''a''" sampleHits, OF _ occurs]
  obtain psA where psA: "map_of (aggregateScores sampleHits 0 []) ''a'' = Some psA"
    and total: "totalScore psA = (\<Sum>i\<leftarrow>ranksOf ''a'' sampleHits. 1 / (real i + 60))"
    and maxi: "maxScore psA = Max ((\<lambda>i. cr_score (sampleHits ! i)) ` set (ranksOf ''a'' sampleHits))"
    and dom: "\<forall>b psB f. map_of (aggregateScores sampleHits 0 []) b = Some psB
                 \<and> inj_on f (set (ranksOf b sampleHits))
                 \<and> f ` set (ranksOf b sampleHits) \<subseteq> set (ranksOf ''a'' sampleHits)
                 \<and> (\<forall>i \<in> set (ranksOf b sampleHits). f i \<le> i)
               \<longrightarrow> totalScore psB \<le> totalScore psA"
    by auto
  obtain psB where psB: "map_of (aggregateScores sampleHits 0 []) ''b'' = Some psB"
    by (simp add: sampleHits_def hit_def aggregateStep_def)
  have "totalScore psB \<le> totalScore psA"
    using dom[rule_format, of "''b''" psB "\<lambda>i. 0"] psB by (simp add: ranksA ranksB)
  moreover have "totalScore psA = 1 / 60 + 1 / 62"
    using total by (simp add: ranksA)
  moreover have "maxScore psA = 0.9"
    using maxi unfolding ranksA by (simp add: sampleHits_def hit_def)
  ultimately show ?thesis using psA psB by blast
qed

section \<open>Properties of the ordering of parents\<close>













section \<open>Basic facts about asynchronous computations\<close>

lemma tryCatch_returns:
  "\<exists>x w'. tryCatch m (\<lambda>err. ioReturn v) w = (Inr x, w')"
  by (auto simp: tryCatch_def ioReturn_def split: prod.splits sum.splits)

lemma tryCatch_of_throw:
  "m w = (Inl err, w') \<Longrightarrow> tryCatch m (\<lambda>err. ioReturn v) w = (Inr v, w')"
  by (simp add: tryCatch_def ioReturn_def)

lemma tryCatch_of_return:
  "m w = (Inr x, w') \<Longrightarrow> tryCatch m handler w = (Inr x, w')"
  by (simp add: tryCatch_def)

lemma tryCatch_bind_return:
  "m w = (Inr x, w') \<Longrightarrow> tryCatch (ioBind m g) h w = tryCatch (g x) h w'"
  by (simp add: tryCatch_def ioBind_def)

lemma collaborator_throws:
  "throws e (clock w) \<Longrightarrow>
   collaborator e respond w
     = (Inl (JsError ''collaborator call failed''), w\<lparr>clock := clock w + 1\<rparr>)"
  by (simp add: collaborator_def)

lemma collaborator_responds:
  "\<not> throws e (clock w) \<Longrightarrow>
   collaborator e respond w = respond (clock w) (w\<lparr>clock := clock w + 1\<rparr>)"
  by (simp add: collaborator_def)

lemma keepsD: "keeps f m \<Longrightarrow> f (snd (m w)) = f w"
  by (simp add: keeps_def)

lemma keeps_return: "keeps f (ioReturn x)"
  by (simp add: keeps_def ioReturn_def)

lemma keeps_bind: "keeps f m \<Longrightarrow> (\<And>x. keeps f (g x)) \<Longrightarrow> keeps f (ioBind m g)"
  unfolding keeps_def ioBind_def
  by (auto split: prod.splits sum.splits) (metis snd_conv)+

lemma keeps_tryCatch: "keeps f m \<Longrightarrow> (\<And>err. keeps f (h err)) \<Longrightarrow> keeps f (tryCatch m h)"
  unfolding keeps_def tryCatch_def
  by (auto split: prod.splits sum.splits) (metis snd_conv)+

lemma keeps_collaborator:
  "(\<And>w n. f (w\<lparr>clock := n\<rparr>) = f w) \<Longrightarrow> (\<And>n. keeps f (respond n)) \<Longrightarrow>
   keeps f (collaborator e respond)"
  by (simp add: keeps_def collaborator_def)

lemma keeps_if: "keeps f m1 \<Longrightarrow> keeps f m2 \<Longrightarrow> keeps f (if c then m1 else m2)"
  by simp

lemma keeps_case_option:
  "keeps f m1 \<Longrightarrow> (\<And>x. keeps f (m2 x)) \<Longrightarrow>
   keeps f (case opt of None \<Rightarrow> m1 | Some x \<Rightarrow> m2 x)"
  by (cases opt) simp_all

lemmas run_defs =
  searchVectorDatabase_def searchVectorDatabaseBody_def trim_def isWhiteSpace_def
  tryCatch_def ioBind_def ioReturn_def ioThrow_def querySimilarDocuments_def voyage_embed_def
  collaborator_def sampleEnv_def sampleWorld_def nthOpt_def index_query_def buildFilter_def
  sampleMetadata_def metadataField_def sortedParents_def jsSort_def aggregateStep_def
  rrfScore_def getParentTexts_def parentChunk_findMany_def uniqueResults_def
  intermediateResults_def rerankDocuments_def voyage_rerank_def mapReranked_def
  embedAndStoreDocument_def embedAndStorePatientDocument_def embedAndStoreBody_def
  document_findUnique_def document_update_def ragChunk_deleteMany_def
  parentChunk_deleteMany_def parentChunk_create_def ragChunk_createMany_def
  ragChunk_findMany_def index_upsert_def index_deleteMany_def childSplitter_splitText_def
  processParents_def processSingleParent_def buildVectors_def buildRagChunks_def
  documentMetadata_def patientMetadata_def pineconeId_def deleteDocumentVectors_def
  deleteDocumentVectorsBody_def textSplitterForRag_def afterCleanup_def
  sampleWorldWithPatient_def

section \<open>No exception crosses the public functions\<close>

text \<open>
  Claim C8. Whatever the collaborators do (every \<open>e\<close>, so every schedule of throws and
  every answer) and whatever the stores hold, \<open>embedAndStoreDocument\<close>,
  \<open>embedAndStorePatientDocument\<close>, \<open>deleteDocumentVectors\<close> and
  \<open>searchVectorDatabase\<close> return a value and never an error; an error that escapes the
  body of one of the first three makes it return false, and an error that escapes the body
  of \<open>searchVectorDatabase\<close> makes it return the empty array.
\<close>

theorem no_exception_escapes:
  "(\<exists>b w'. embedAndStoreDocument e documentId content documentTitle w = (Inr b, w'))
   \<and> (\<exists>b w'. embedAndStorePatientDocument e documentId content documentTitle patientId w
               = (Inr b, w'))
   \<and> (\<exists>b w'. deleteDocumentVectors e documentId w = (Inr b, w'))
   \<and> (\<exists>rs w'. searchVectorDatabase e query topK typeFilter w = (Inr rs, w'))
   \<and> (\<forall>err w'.
         embedAndStoreBody e (documentMetadata documentId documentTitle) documentId content w
           = (Inl err, w')
         \<longrightarrow> embedAndStoreDocument e documentId content documentTitle w = (Inr False, w'))
   \<and> (\<forall>err w'.
         embedAndStoreBody e (patientMetadata documentId documentTitle patientId) documentId
           content w = (Inl err, w')
         \<longrightarrow> embedAndStorePatientDocument e documentId content documentTitle patientId w
               = (Inr False, w'))
   \<and> (\<forall>err w'. deleteDocumentVectorsBody e documentId w = (Inl err, w')
         \<longrightarrow> deleteDocumentVectors e documentId w = (Inr False, w'))
   \<and> (\<forall>err w'. trim query \<noteq> []
           \<and> searchVectorDatabaseBody e query topK typeFilter w = (Inl err, w')
         \<longrightarrow> searchVectorDatabase e query topK typeFilter w = (Inr [], w'))"
proof (intro conjI allI impI)
  show "\<exists>b w'. embedAndStoreDocument e documentId content documentTitle w = (Inr b, w')"
    unfolding embedAndStoreDocument_def by (rule tryCatch_returns)
  show "\<exists>b w'. embedAndStorePatientDocument e documentId content documentTitle patientId w
          = (Inr b, w')"
    unfolding embedAndStorePatientDocument_def by (rule tryCatch_returns)
  show "\<exists>b w'. deleteDocumentVectors e documentId w = (Inr b, w')"
    unfolding deleteDocumentVectors_def by (rule tryCatch_returns)
  show "\<exists>rs w'. searchVectorDatabase e query topK typeFilter w = (Inr rs, w')"
    using tryCatch_returns[of "searchVectorDatabaseBody e query topK typeFilter" "[]" w]
    by (simp add: searchVectorDatabase_def ioReturn_def)
qed (simp_all add: embedAndStoreDocument_def embedAndStorePatientDocument_def
      deleteDocumentVectors_def searchVectorDatabase_def tryCatch_of_throw)

theorem no_exception_escapes_witness:
  "embedAndStoreDocument (sampleEnv (\<lambda>n. True) None) ''doc1'' ''x'' ''t'' sampleWorld
     = (Inr False, sampleWorld\<lparr>clock := 1\<rparr>)
   \<and> embedAndStorePatientDocument (sampleEnv (\<lambda>n. True) None) ''doc1'' ''x'' ''t'' ''patient7''
       sampleWorld
     = (Inr False, sampleWorld\<lparr>clock := 1\<rparr>)
   \<and> deleteDocumentVectors (sampleEnv (\<lambda>n. True) None) ''doc2'' sampleWorld
     = (Inr False, sampleWorld\<lparr>clock := 1\<rparr>)
   \<and> searchVectorDatabase
       (sampleEnv (\<lambda>n. False)
          (Some [\<lparr>ri_document = None, ri_relevanceScore = Some 0.5, ri_index = Some 5\<rparr>]))
       ''aspirin'' 50 FilterAll sampleWorld
     = (Inr [], sampleWorld\<lparr>clock := 4\<rparr>)"
proof -
  let ?e = "sampleEnv (\<lambda>n. True) None"
  let ?r = "sampleEnv (\<lambda>n. False)
          (Some [\<lparr>ri_document = None, ri_relevanceScore = Some 0.5, ri_index = Some 5\<rparr>])"
  have b1: "embedAndStoreBody ?e (documentMetadata ''doc1'' ''t'') ''doc1'' ''x'' sampleWorld
      = (Inl (JsError ''collaborator call failed''), sampleWorld\<lparr>clock := 1\<rparr>)"
    by (simp add: run_defs)
  have b2: "embedAndStoreBody ?e (patientMetadata ''doc1'' ''t'' ''patient7'') ''doc1'' ''x''
        sampleWorld
      = (Inl (JsError ''collaborator call failed''), sampleWorld\<lparr>clock := 1\<rparr>)"
    by (simp add: run_defs)
  have b3: "deleteDocumentVectorsBody ?e ''doc2'' sampleWorld
      = (Inl (JsError ''collaborator call failed''), sampleWorld\<lparr>clock := 1\<rparr>)"
    by (simp add: run_defs)
  have b4: "searchVectorDatabaseBody ?r ''aspirin'' 50 FilterAll sampleWorld
      = (Inl (JsError ''TypeError: cannot read properties of undefined''),
         sampleWorld\<lparr>clock := 4\<rparr>)"
    by (simp add: run_defs)
  have q: "trim ''aspirin'' \<noteq> []"
    by (simp add: trim_def isWhiteSpace_def)
  from no_exception_escapes[where e = ?e and documentId = "''doc1''" and content = "''x''"
      and documentTitle = "''t''" and w = sampleWorld and patientId = "''patient7''"] b1 b2
  have "embedAndStoreDocument ?e ''doc1'' ''x'' ''t'' sampleWorld
       = (Inr False, sampleWorld\<lparr>clock := 1\<rparr>)"
    and "embedAndStorePatientDocument ?e ''doc1'' ''x'' ''t'' ''patient7'' sampleWorld
       = (Inr False, sampleWorld\<lparr>clock := 1\<rparr>)"
    by blast+
  moreover
  from no_exception_escapes[where e = ?e and documentId = "''doc2''" and w = sampleWorld] b3
  have "deleteDocumentVectors ?e ''doc2'' sampleWorld = (Inr False, sampleWorld\<lparr>clock := 1\<rparr>)"
    by blast
  moreover
  from no_exception_escapes[where e = ?r and query = "''aspirin''" and topK = 50
      and typeFilter = FilterAll and w = sampleWorld] b4 q
  have "searchVectorDatabase ?r ''aspirin'' 50 FilterAll sampleWorld
       = (Inr [], sampleWorld\<lparr>clock := 4\<rparr>)"
    by simp
  ultimately show ?thesis by simp
qed

section \<open>An ingested document is left alone\<close>

lemma document_findUnique_result:
  "document_findUnique e documentId w =
     (if throws e (clock w) then Inl (JsError ''collaborator call failed'')
      else Inr (find (\<lambda>d. doc_id d = documentId) (documentTable w)),
      w\<lparr>clock := clock w + 1\<rparr>)"
  by (simp add: document_findUnique_def collaborator_def)

lemma embedAndStoreBody_ingested:
  assumes "find (\<lambda>d. doc_id d = documentId) (documentTable w) = Some d"
    and "doc_isIngested d"
  shows "embedAndStoreBody e mkMetadata documentId content w
           = (if throws e (clock w) then Inl (JsError ''collaborator call failed'') else Inr True,
              w\<lparr>clock := clock w + 1\<rparr>)"
  using assms
  by (simp add: embedAndStoreBody_def ioBind_def document_findUnique_result ioReturn_def)

text \<open>
  Claim C4 (re-ingestion idempotence), as amended. Let the Document row of \<open>documentId\<close>
  have its \<open>isIngested\<close> flag true when \<open>embedAndStoreDocument\<close> or
  \<open>embedAndStorePatientDocument\<close> is called. Whether the lookup of the row answers or
  throws, the world the call leaves is the world it found but for the clock, which has
  advanced by the one call of the lookup: no row of Document, ParentChunk or RagChunk and no
  entry of the vector index has been created, changed or deleted, and no other collaborator
  has been called. The call returns true when the lookup answers, and false when the lookup
  throws.
\<close>

theorem ingested_document_untouched:
  assumes "find (\<lambda>d. doc_id d = documentId) (documentTable w) = Some d"
    and "doc_isIngested d"
  shows "embedAndStoreDocument e documentId content documentTitle w
           = (Inr (\<not> throws e (clock w)), w\<lparr>clock := clock w + 1\<rparr>)
       \<and> embedAndStorePatientDocument e documentId content documentTitle patientId w
           = (Inr (\<not> throws e (clock w)), w\<lparr>clock := clock w + 1\<rparr>)"
  using assms
  by (simp add: embedAndStoreDocument_def embedAndStorePatientDocument_def tryCatch_def
        embedAndStoreBody_ingested ioReturn_def)

text \<open>
  The document \<open>doc2\<close> of \<open>sampleWorld\<close> is ingested: a run in which no call
  throws, and a run in which the second and every later call would throw.
\<close>

theorem ingested_document_untouched_witness:
  "embedAndStoreDocument (sampleEnv (\<lambda>n. False) None) ''doc2'' ''new text'' ''title'' sampleWorld
     = (Inr True, sampleWorld\<lparr>clock := 1\<rparr>)
   \<and> embedAndStorePatientDocument (sampleEnv (\<lambda>n. False) None) ''doc2'' ''new text'' ''title''
       ''patient7'' sampleWorld
     = (Inr True, sampleWorld\<lparr>clock := 1\<rparr>)
   \<and> embedAndStoreDocument (sampleEnv (\<lambda>n. n \<ge> 1) None) ''doc2'' ''new text'' ''title''
       sampleWorld
     = (Inr True, sampleWorld\<lparr>clock := 1\<rparr>)"
  using ingested_document_untouched[of "''doc2''" sampleWorld
      "\<lparr>doc_id = ''doc2'', doc_isIngested = True, doc_ragSubtype = None\<rparr>"
      "sampleEnv (\<lambda>n. False) None" "''new text''" "''title''" "''patient7''"]
    ingested_document_untouched[of "''doc2''" sampleWorld
      "\<lparr>doc_id = ''doc2'', doc_isIngested = True, doc_ragSubtype = None\<rparr>"
      "sampleEnv (\<lambda>n. n \<ge> 1) None" "''new text''" "''title''" "''patient7''"]
  by (simp add: sampleEnv_def sampleWorld_def)

text \<open>
  The claim as stated fails in its first half: the document \<open>doc2\<close> of \<open>sampleWorld\<close>
  has its flag true, and when the lookup, the first collaborator call, throws, the outer
  \<open>catch\<close> of both functions returns false. The stores are untouched in this run too.
\<close>

theorem ingested_document_counterexample:
  "find (\<lambda>d. doc_id d = ''doc2'') (documentTable sampleWorld)
     = Some \<lparr>doc_id = ''doc2'', doc_isIngested = True, doc_ragSubtype = None\<rparr>
   \<and> embedAndStoreDocument (sampleEnv (\<lambda>n. n = 0) None) ''doc2'' ''new text'' ''title''
       sampleWorld
     = (Inr False, sampleWorld\<lparr>clock := 1\<rparr>)
   \<and> embedAndStorePatientDocument (sampleEnv (\<lambda>n. n = 0) None) ''doc2'' ''new text'' ''title''
       ''patient7'' sampleWorld
     = (Inr False, sampleWorld\<lparr>clock := 1\<rparr>)"
  by (simp add: embedAndStoreDocument_def embedAndStorePatientDocument_def tryCatch_def
        embedAndStoreBody_def ioBind_def document_findUnique_def collaborator_def ioReturn_def
        sampleEnv_def sampleWorld_def)

section \<open>The fallback when the reranker returns nothing\<close>

lemma rerankDocuments_empty:
  assumes "throws e (clock w)
           \<or> rerank e (clock w) query docs (length docs) = None
           \<or> rerank e (clock w) query docs (length docs) = Some []"
  shows "fst (rerankDocuments e query docs None w) = Inr []"
proof (cases "docs = []")
  case True
  then show ?thesis by (simp add: rerankDocuments_def tryCatch_def ioReturn_def)
next
  case False
  show ?thesis
  proof (cases "throws e (clock w)")
    case True
    then show ?thesis using False
      by (simp add: rerankDocuments_def tryCatch_def ioBind_def voyage_rerank_def
          collaborator_throws ioReturn_def)
  next
    case ok: False
    with assms False show ?thesis
      by (auto simp add: rerankDocuments_def tryCatch_def ioBind_def voyage_rerank_def
          collaborator_responds ioReturn_def)
  qed
qed

text \<open>
  Claim C5 (rerank fallback). Let \<open>childResults\<close> be the hits of a non-blank query,
  \<open>parentTexts\<close> the texts fetched for the sorted parents, and
  \<open>uniqueResults parentTexts childResults\<close> the deduplicated candidates in their
  RRF-derived order. If the call of the reranker throws, or its response has no data or
  empty data, \<open>searchVectorDatabase\<close> returns exactly that list of candidates.
\<close>

theorem rerank_fallback:
  assumes query: "trim query \<noteq> []"
    and hits: "querySimilarDocuments e query topK (Some (buildFilter typeFilter)) w
                 = (Inr childResults, w1)"
    and texts: "getParentTexts e (map fst (sortedParents childResults)) w1
                 = (Inr parentTexts, w2)"
    and reranker: "throws e (clock w2)
       \<or> rerank e (clock w2) query (map psr_parentText (uniqueResults parentTexts childResults))
            (length (uniqueResults parentTexts childResults)) = None
       \<or> rerank e (clock w2) query (map psr_parentText (uniqueResults parentTexts childResults))
            (length (uniqueResults parentTexts childResults)) = Some []"
  shows "fst (searchVectorDatabase e query topK typeFilter w)
           = Inr (uniqueResults parentTexts childResults)"
proof (cases "childResults = []")
  case True
  then have "uniqueResults parentTexts childResults = []"
    by (simp add: uniqueResults_def sortedParents_def jsSort_def intermediateResults_def)
  with True query hits show ?thesis
    by (simp add: searchVectorDatabase_def searchVectorDatabaseBody_def tryCatch_def ioBind_def
        ioReturn_def)
next
  case False
  have "fst (rerankDocuments e query
               (map psr_parentText (uniqueResults parentTexts childResults)) None w2) = Inr []"
    using reranker by (intro rerankDocuments_empty) simp
  then obtain w3 where
    "rerankDocuments e query (map psr_parentText (uniqueResults parentTexts childResults)) None w2
       = (Inr [], w3)"
    by (cases "rerankDocuments e query
                 (map psr_parentText (uniqueResults parentTexts childResults)) None w2") auto
  with False query hits texts show ?thesis
    by (simp add: searchVectorDatabase_def searchVectorDatabaseBody_def tryCatch_def ioBind_def
        ioReturn_def)
qed

theorem rerank_fallback_witness:
  "fst (searchVectorDatabase (sampleEnv (\<lambda>n. n = 3) None) ''aspirin'' 50 FilterAll sampleWorld)
     = Inr [\<lparr>psr_parentChunkId = ''p1'', psr_parentText = ''aspirin'',
             psr_documentId = Some ''doc2'', psr_documentTitle = Some ''title'',
             psr_score = 0.9\<rparr>]"
proof -
  let ?e = "sampleEnv (\<lambda>n. n = 3) None"
  have hits: "querySimilarDocuments ?e ''aspirin'' 50 (Some (buildFilter FilterAll)) sampleWorld
      = (Inr [\<lparr>cr_documentId = Some ''doc2'', cr_documentTitle = Some ''title'',
               cr_childText = Some ''aspirin'', cr_parentChunkId = ''p1'', cr_score = 0.9\<rparr>],
         sampleWorld\<lparr>clock := 2\<rparr>)"
    by (simp add: run_defs)
  have texts: "getParentTexts ?e
        (map fst (sortedParents [\<lparr>cr_documentId = Some ''doc2'', cr_documentTitle = Some ''title'',
               cr_childText = Some ''aspirin'', cr_parentChunkId = ''p1'', cr_score = 0.9\<rparr>]))
        (sampleWorld\<lparr>clock := 2\<rparr>)
      = (Inr [(''p1'', ''aspirin'')], sampleWorld\<lparr>clock := 3\<rparr>)"
    by (simp add: run_defs)
  from rerank_fallback[OF _ hits texts] show ?thesis
    by (simp add: run_defs)
qed

section \<open>Ingestion: the per-parent stage and the final flag update\<close>


lemma headers_nonempty: "headerLevel < length headers \<Longrightarrow> headers ! headerLevel \<noteq> []"
  by (auto simp: headers_def nth_Cons split: nat.splits)

lemma splitByHeader_empty: "splitByHeader maxLength [] headerLevel = [[]]"
proof (induction maxLength "[] :: string" headerLevel rule: splitByHeader.induct)
  case (1 maxLength headerLevel)
  show ?case
  proof (cases "int (length ([] :: string)) \<le> maxLength \<or> headerLevel \<ge> length headers")
    case True
    then show ?thesis by (subst splitByHeader.simps) auto
  next
    case False
    then have "splitLookahead (headers ! headerLevel) [] = [[]]"
      using headers_nonempty[of headerLevel] by (simp add: splitLookahead_def)
    with False 1(1) show ?thesis by (subst splitByHeader.simps) simp
  qed
qed

lemma splitByHeader_nonempty: "splitByHeader maxLength content headerLevel \<noteq> []"
proof (cases "content = []")
  case True
  then show ?thesis by (simp add: splitByHeader_empty)
next
  case False
  then have "concat (splitByHeader maxLength content headerLevel) \<noteq> []"
    by (simp add: concat_splitByHeader)
  then show ?thesis by auto
qed


lemma keeps_parentChunks_ops:
  "keeps parentChunkTable (childSplitter_splitText e text)"
  "keeps parentChunkTable (voyage_embed e mode input)"
  "keeps parentChunkTable (index_upsert e vs)"
  "keeps parentChunkTable (ragChunk_createMany e rows)"
  "keeps parentChunkTable (document_update e documentId flag)"
  unfolding childSplitter_splitText_def voyage_embed_def index_upsert_def
    ragChunk_createMany_def document_update_def
  by (rule keeps_collaborator; simp add: keeps_def)+




lemma processSingleParent_returns:
  "\<exists>w'. processSingleParent e mk documentId parentContent parentIndex w = (Inr (), w')"
  unfolding processSingleParent_def
  by (auto simp: tryCatch_def ioReturn_def split: prod.splits sum.splits)



lemma embedAndStoreBody_reaches_parents:
  assumes "\<not> throws e (clock w)" "\<not> throws e (clock w + 1)" "\<not> throws e (clock w + 2)"
    and "find (\<lambda>d. doc_id d = documentId) (documentTable w) = doc"
    and "\<not> (case doc of None \<Rightarrow> False | Some d \<Rightarrow> doc_isIngested d)"
  shows "embedAndStoreBody e mk documentId content w =
     ioBind (processParents e (mk doc) documentId (textSplitterForRag content 4000)) (\<lambda>_.
       ioBind (document_update e documentId True) (\<lambda>_. ioReturn True))
       (afterCleanup documentId w)"
proof -
  have split: "textSplitterForRag content 4000 \<noteq> []"
    by (simp add: textSplitterForRag_def splitByHeader_nonempty)
  let ?w1 = "w\<lparr>clock := Suc (clock w)\<rparr>"
  let ?w2 = "w\<lparr>ragChunkTable := filter (\<lambda>c. rc_documentId c \<noteq> documentId) (ragChunkTable w),
               clock := Suc (Suc (clock w))\<rparr>"
  have s1: "document_findUnique e documentId w = (Inr doc, ?w1)"
    using assms by (simp add: document_findUnique_def collaborator_responds)
  have s2: "ragChunk_deleteMany e documentId ?w1 = (Inr (), ?w2)"
    using assms by (simp add: ragChunk_deleteMany_def collaborator_responds)
  have s3: "parentChunk_deleteMany e documentId ?w2 = (Inr (), afterCleanup documentId w)"
    using assms by (simp add: parentChunk_deleteMany_def collaborator_responds afterCleanup_def)
  show ?thesis
    using assms(5) split
    by (simp add: embedAndStoreBody_def ioBind_def s1 s2 s3)
qed





section \<open>The splitter never returns an empty list\<close>

lemma keeps_parentChunks_rest:
  "keeps parentChunkTable
     (tryCatch
        (ioBind (childSplitter_splitText e parentContent) (\<lambda>childChunks.
        if childChunks = [] then ioReturn ()
        else
          ioBind (voyage_embed e DocumentInput childChunks) (\<lambda>data.
          (case data of
             None \<Rightarrow> ioReturn ()
           | Some embeddings \<Rightarrow>
               if buildVectors mkMetadata documentId parentIndex parentChunk childChunks
                    embeddings \<noteq> []
               then
                 ioBind (index_upsert e
                           (buildVectors mkMetadata documentId parentIndex parentChunk
                              childChunks embeddings)) (\<lambda>_.
                 ragChunk_createMany e
                   (buildRagChunks documentId parentIndex parentChunk childChunks
                      (buildVectors mkMetadata documentId parentIndex parentChunk childChunks
                         embeddings)))
               else ioReturn ()))))
       (\<lambda>err. ioReturn ()))"
  by (intro keeps_tryCatch keeps_bind keeps_if keeps_case_option keeps_return
        keeps_parentChunks_ops)

lemma processSingleParent_creates:
  assumes "\<not> throws e (clock w)"
    and "find (\<lambda>d. doc_id d = documentId) (documentTable w) \<noteq> None"
  shows "parentChunkTable (snd (processSingleParent e mk documentId parentContent parentIndex w))
       = parentChunkTable w @
           [\<lparr>pc_id = newId e (clock w), pc_documentId = documentId, pc_parentIndex = parentIndex,
             pc_parentText = parentContent\<rparr>]"
proof -
  let ?row = "\<lparr>pc_id = newId e (clock w), pc_documentId = documentId,
               pc_parentIndex = parentIndex, pc_parentText = parentContent\<rparr>"
  let ?w' = "w\<lparr>parentChunkTable := parentChunkTable w @ [?row], clock := Suc (clock w)\<rparr>"
  have create: "parentChunk_create e documentId parentIndex parentContent w = (Inr ?row, ?w')"
    using assms by (auto simp add: parentChunk_create_def collaborator_responds)
  note step = tryCatch_bind_return[where m = "parentChunk_create e documentId parentIndex parentContent"
      and w = w and x = ?row and w' = ?w', OF create]
  show ?thesis
    unfolding processSingleParent_def step
    by (simp add: keepsD[OF keeps_parentChunks_rest])
qed

text \<open>
  Claim C10. For every text and every maxLength \<open>textSplitterForRag\<close> returns at least
  one segment, and on the empty text it returns the single segment \<open>""\<close>; so the test
  \<open>parentChunks.length === 0\<close> of the orchestrator never succeeds. When a document that
  is not ingested is ingested with the empty text, and the lookup, the two deletes and the
  \<open>create\<close> do not throw, the store ends with exactly one ParentChunk row of that
  document: index 0, the empty string as text.
\<close>

theorem splitter_never_empty:
  "textSplitterForRag text maxLength \<noteq> []
   \<and> textSplitterForRag [] maxLength = [[]]
   \<and> (\<not> throws e (clock w) \<and> \<not> throws e (clock w + 1) \<and> \<not> throws e (clock w + 2)
        \<and> \<not> throws e (clock w + 3)
        \<and> find (\<lambda>d. doc_id d = documentId) (documentTable w) = Some d \<and> \<not> doc_isIngested d
      \<longrightarrow> filter (\<lambda>p. pc_documentId p = documentId)
            (parentChunkTable (snd (embedAndStoreDocument e documentId [] documentTitle w)))
          = [\<lparr>pc_id = newId e (clock w + 3), pc_documentId = documentId, pc_parentIndex = 0,
              pc_parentText = []\<rparr>])"
proof (intro conjI impI)
  show "textSplitterForRag text maxLength \<noteq> []"
    by (simp add: textSplitterForRag_def splitByHeader_nonempty)
  show empty: "textSplitterForRag [] maxLength = [[]]"
    by (simp add: textSplitterForRag_def splitByHeader_empty)
  assume hyps: "\<not> throws e (clock w) \<and> \<not> throws e (clock w + 1) \<and> \<not> throws e (clock w + 2)
        \<and> \<not> throws e (clock w + 3)
        \<and> find (\<lambda>d. doc_id d = documentId) (documentTable w) = Some d \<and> \<not> doc_isIngested d"
  let ?mk = "documentMetadata documentId documentTitle"
  let ?w3 = "afterCleanup documentId w"
  let ?row = "\<lparr>pc_id = newId e (clock w + 3), pc_documentId = documentId, pc_parentIndex = 0,
              pc_parentText = []\<rparr>"
  have body: "embedAndStoreBody e ?mk documentId [] w =
     ioBind (processParents e (?mk (Some d)) documentId [[]]) (\<lambda>_.
       ioBind (document_update e documentId True) (\<lambda>_. ioReturn True)) ?w3"
    using embedAndStoreBody_reaches_parents[of e w documentId "Some d" ?mk "[]"] hyps
    by (simp add: textSplitterForRag_def splitByHeader_empty)
  obtain w5 where parent: "processSingleParent e (?mk (Some d)) documentId [] 0 ?w3 = (Inr (), w5)"
    using processSingleParent_returns by blast
  have "parentChunkTable (snd (processSingleParent e (?mk (Some d)) documentId [] 0 ?w3))
      = parentChunkTable ?w3 @ [\<lparr>pc_id = newId e (clock ?w3), pc_documentId = documentId,
          pc_parentIndex = 0, pc_parentText = []\<rparr>]"
    using hyps by (intro processSingleParent_creates) (simp_all add: afterCleanup_def)
  then have table: "parentChunkTable w5 =
      filter (\<lambda>p. pc_documentId p \<noteq> documentId) (parentChunkTable w) @ [?row]"
    using parent by (simp add: afterCleanup_def)
  have "embedAndStoreDocument e documentId [] documentTitle w =
      tryCatch (ioBind (document_update e documentId True) (\<lambda>_. ioReturn True))
        (\<lambda>err. ioReturn False) w5"
    by (simp add: embedAndStoreDocument_def tryCatch_def body processParents_def ioBind_def parent
        ioReturn_def)
  moreover have "keeps parentChunkTable
      (tryCatch (ioBind (document_update e documentId True) (\<lambda>_. ioReturn True))
        (\<lambda>err. ioReturn False))"
    by (intro keeps_tryCatch keeps_bind keeps_return keeps_parentChunks_ops)
  ultimately have "parentChunkTable (snd (embedAndStoreDocument e documentId [] documentTitle w))
      = parentChunkTable w5"
    by (simp add: keepsD)
  then show "filter (\<lambda>p. pc_documentId p = documentId)
            (parentChunkTable (snd (embedAndStoreDocument e documentId [] documentTitle w)))
          = [?row]"
    by (simp add: table)
qed

theorem splitter_never_empty_witness:
  "filter (\<lambda>p. pc_documentId p = ''doc1'')
     (parentChunkTable
        (snd (embedAndStoreDocument (sampleEnv (\<lambda>n. False) None) ''doc1'' [] ''t'' sampleWorld)))
   = [\<lparr>pc_id = ''id3'', pc_documentId = ''doc1'', pc_parentIndex = 0, pc_parentText = []\<rparr>]"
  using splitter_never_empty[where e = "sampleEnv (\<lambda>n. False) None" and w = sampleWorld
      and documentId = "''doc1''"
      and d = "\<lparr>doc_id = ''doc1'', doc_isIngested = False, doc_ragSubtype = Some MEDICINE\<rparr>"
      and documentTitle = "''t''"]
  by (simp add: sampleEnv_def sampleWorld_def showNat.simps[of 3])

section \<open>The general search never sees patient entries\<close>

lemma agreesD:
  "agrees flt m \<Longrightarrow> sameView flt w1 w2 \<Longrightarrow>
   fst (m w1) = fst (m w2) \<and> sameView flt (snd (m w1)) (snd (m w2))"
  by (simp add: agrees_def)

lemma agrees_return: "agrees flt (ioReturn x)"
  by (simp add: agrees_def ioReturn_def)

lemma agrees_throw: "agrees flt (ioThrow err)"
  by (simp add: agrees_def ioThrow_def)

lemma agrees_bind:
  assumes m: "agrees flt m" and g: "\<And>x. agrees flt (g x)"
  shows "agrees flt (ioBind m g)"
  unfolding agrees_def
proof (intro allI impI)
  fix w1 w2 assume view: "sameView flt w1 w2"
  from agreesD[OF m view] have fst: "fst (m w1) = fst (m w2)"
    and snd: "sameView flt (snd (m w1)) (snd (m w2))" by auto
  show "fst (ioBind m g w1) = fst (ioBind m g w2)
      \<and> sameView flt (snd (ioBind m g w1)) (snd (ioBind m g w2))"
  proof (cases "m w1")
    case (Pair r1 v1)
    obtain r2 v2 where m2: "m w2 = (r2, v2)" by (cases "m w2")
    with Pair fst snd have eq: "r2 = r1" and view': "sameView flt v1 v2" by auto
    show ?thesis
    proof (cases r1)
      case (Inl err)
      with Pair m2 eq view' show ?thesis by (simp add: ioBind_def)
    next
      case (Inr x)
      with Pair m2 eq agreesD[OF g[of x] view'] show ?thesis by (simp add: ioBind_def)
    qed
  qed
qed

lemma agrees_tryCatch:
  assumes m: "agrees flt m" and h: "\<And>err. agrees flt (h err)"
  shows "agrees flt (tryCatch m h)"
  unfolding agrees_def
proof (intro allI impI)
  fix w1 w2 assume view: "sameView flt w1 w2"
  from agreesD[OF m view] have fst: "fst (m w1) = fst (m w2)"
    and snd: "sameView flt (snd (m w1)) (snd (m w2))" by auto
  show "fst (tryCatch m h w1) = fst (tryCatch m h w2)
      \<and> sameView flt (snd (tryCatch m h w1)) (snd (tryCatch m h w2))"
  proof (cases "m w1")
    case (Pair r1 v1)
    obtain r2 v2 where m2: "m w2 = (r2, v2)" by (cases "m w2")
    with Pair fst snd have eq: "r2 = r1" and view': "sameView flt v1 v2" by auto
    show ?thesis
    proof (cases r1)
      case (Inl err)
      with Pair m2 eq agreesD[OF h[of err] view'] show ?thesis by (simp add: tryCatch_def)
    next
      case (Inr x)
      with Pair m2 eq view' show ?thesis by (simp add: tryCatch_def)
    qed
  qed
qed

lemma agrees_if: "agrees flt m1 \<Longrightarrow> agrees flt m2 \<Longrightarrow> agrees flt (if c then m1 else m2)"
  by simp

lemma agrees_case_option:
  "agrees flt m1 \<Longrightarrow> (\<And>x. agrees flt (m2 x)) \<Longrightarrow>
   agrees flt (case opt of None \<Rightarrow> m1 | Some x \<Rightarrow> m2 x)"
  by (cases opt) simp_all

lemma agrees_collaborator:
  assumes "\<And>n. agrees flt (respond n)"
  shows "agrees flt (collaborator e respond)"
  unfolding agrees_def
proof (intro allI impI)
  fix w1 w2 assume view: "sameView flt w1 w2"
  then have "sameView flt (w1\<lparr>clock := clock w1 + 1\<rparr>) (w2\<lparr>clock := clock w2 + 1\<rparr>)"
    by (simp add: sameView_def)
  with view agreesD[OF assms this, of "clock w1"]
  show "fst (collaborator e respond w1) = fst (collaborator e respond w2)
      \<and> sameView flt (snd (collaborator e respond w1)) (snd (collaborator e respond w2))"
    by (simp add: collaborator_def sameView_def)
qed

lemma agrees_ops:
  "agrees flt (voyage_embed e mode input)"
  "agrees flt (voyage_rerank e query docs k)"
  "agrees flt (parentChunk_findMany e ids)"
  "agrees flt (index_query e vector topK (Some flt))"
  unfolding voyage_embed_def voyage_rerank_def parentChunk_findMany_def index_query_def
  by (rule agrees_collaborator; simp add: agrees_def sameView_def)+

lemma agrees_querySimilarDocuments:
  "agrees flt (querySimilarDocuments e query topK (Some flt))"
  unfolding querySimilarDocuments_def
  by (intro agrees_tryCatch agrees_bind agrees_case_option agrees_return agrees_ops)

lemma agrees_getParentTexts: "agrees flt (getParentTexts e ids)"
  unfolding getParentTexts_def
  by (intro agrees_tryCatch agrees_bind agrees_if agrees_return agrees_ops)

lemma agrees_rerankDocuments: "agrees flt (rerankDocuments e query docs k)"
  unfolding rerankDocuments_def
  by (intro agrees_tryCatch agrees_bind agrees_if agrees_case_option agrees_return agrees_ops)

lemma agrees_searchVectorDatabase:
  "agrees (buildFilter typeFilter) (searchVectorDatabase e query topK typeFilter)"
  unfolding searchVectorDatabase_def searchVectorDatabaseBody_def
  by (intro agrees_tryCatch agrees_bind agrees_if agrees_case_option agrees_return agrees_throw
        agrees_querySimilarDocuments agrees_getParentTexts agrees_rerankDocuments)

lemma buildFilter_excludes_patients:
  "matchesFilter (buildFilter typeFilter) v \<Longrightarrow> \<not> patientTagged v"
  by (cases typeFilter) (auto simp: buildFilter_def patientTagged_def split: option.splits)

lemma filter_filter_implied:
  "(\<And>x. P x \<Longrightarrow> Q x) \<Longrightarrow> filter P (filter Q xs) = filter P xs"
  by (induction xs) auto

text \<open>
  Claim C1. For every query, every topK and each of the three type filters: the metadata
  filter that \<open>searchVectorDatabase\<close> builds matches only entries whose type tag is
  \<open>medicine\<close> or \<open>disease\<close>; and for any two worlds that differ only in entries of the
  vector index tagged \<open>patient\<close>, \<open>searchVectorDatabase\<close> returns the same result. The
  vector index is taken to answer a query from the entries that satisfy the filter it is
  given, whatever it does with them.
\<close>

theorem search_ignores_patient_entries:
  assumes "documentTable w1 = documentTable w2"
    and "parentChunkTable w1 = parentChunkTable w2"
    and "ragChunkTable w1 = ragChunkTable w2"
    and "clock w1 = clock w2"
    and "filter (\<lambda>v. \<not> patientTagged v) (vectorIndex w1) = filter (\<lambda>v. \<not> patientTagged v) (vectorIndex w2)"
  shows "fst (searchVectorDatabase e query topK typeFilter w1)
           = fst (searchVectorDatabase e query topK typeFilter w2)
       \<and> (\<forall>v. matchesFilter (buildFilter typeFilter) v \<longrightarrow>
              (\<exists>m. v_metadata v = Some m \<and> (m_type m = Some ''medicine'' \<or> m_type m = Some ''disease'')))"
proof
  let ?flt = "buildFilter typeFilter"
  have "filter (matchesFilter ?flt) (filter (\<lambda>v. \<not> patientTagged v) (vectorIndex w1))
      = filter (matchesFilter ?flt) (filter (\<lambda>v. \<not> patientTagged v) (vectorIndex w2))"
    using assms(5) by simp
  then have "filter (matchesFilter ?flt) (vectorIndex w1) = filter (matchesFilter ?flt) (vectorIndex w2)"
    by (simp add: filter_filter_implied buildFilter_excludes_patients del: filter_filter)
  then have "sameView ?flt w1 w2"
    using assms by (simp add: sameView_def)
  then show "fst (searchVectorDatabase e query topK typeFilter w1)
           = fst (searchVectorDatabase e query topK typeFilter w2)"
    using agreesD[OF agrees_searchVectorDatabase] by blast
  show "\<forall>v. matchesFilter (buildFilter typeFilter) v \<longrightarrow>
              (\<exists>m. v_metadata v = Some m \<and> (m_type m = Some ''medicine'' \<or> m_type m = Some ''disease''))"
    by (cases typeFilter) (auto simp: buildFilter_def split: option.splits)
qed

theorem search_ignores_patient_entries_witness:
  "fst (searchVectorDatabase (sampleEnv (\<lambda>n. False) None) ''aspirin'' 50 FilterAll
          sampleWorldWithPatient)
     = fst (searchVectorDatabase (sampleEnv (\<lambda>n. False) None) ''aspirin'' 50 FilterAll sampleWorld)
   \<and> fst (searchVectorDatabase (sampleEnv (\<lambda>n. False) None) ''aspirin'' 50 FilterAll sampleWorld)
     = Inr [\<lparr>psr_parentChunkId = ''p1'', psr_parentText = ''aspirin'',
             psr_documentId = Some ''doc2'', psr_documentTitle = Some ''title'',
             psr_score = 0.9\<rparr>]"
proof
  show "fst (searchVectorDatabase (sampleEnv (\<lambda>n. False) None) ''aspirin'' 50 FilterAll
          sampleWorldWithPatient)
     = fst (searchVectorDatabase (sampleEnv (\<lambda>n. False) None) ''aspirin'' 50 FilterAll sampleWorld)"
    using search_ignores_patient_entries[of sampleWorldWithPatient sampleWorld "sampleEnv (\<lambda>n. False) None" "''aspirin''" 50 FilterAll]
    by (simp add: sampleWorldWithPatient_def sampleWorld_def patientTagged_def sampleMetadata_def)
  show "fst (searchVectorDatabase (sampleEnv (\<lambda>n. False) None) ''aspirin'' 50 FilterAll sampleWorld)
     = Inr [\<lparr>psr_parentChunkId = ''p1'', psr_parentText = ''aspirin'',
             psr_documentId = Some ''doc2'', psr_documentTitle = Some ''title'',
             psr_score = 0.9\<rparr>]"
    by (simp add: run_defs)
qed

end
